theory Spec2Isabelle
  imports Main "HOL-Library.Word"
begin

unbundle bit_operations_syntax

section \<open>Errors (errors.go)\<close>

text \<open>
  \<^verbatim>\<open>type Error struct { ErrorCode int `json:"error_code"`; ErrorText string `json:"error_text"` }\<close>
  and the envelope \<^verbatim>\<open>type ErrorResponse struct { Error `json:"error"` }\<close>.
\<close>

record Error =
  ErrorCode :: int
  ErrorText :: string

record ErrorResponse =
  Error :: Error

text \<open>
  The values of Go's \<^verbatim>\<open>error\<close> interface that this repository builds or passes on:
  the sentinel \<^verbatim>\<open>ErrMissingToken\<close>, the \<^verbatim>\<open>fmt.Errorf("...: %w", err)\<close> wrappers,
  \<^verbatim>\<open>*Error\<close>, \<^verbatim>\<open>ErrorList\<close>, and the errors the libraries make, known by their
  message: plain ones, and ones that wrap another error (as the \<^verbatim>\<open>*url.Error\<close> of
  \<^verbatim>\<open>http.Client.Do\<close> wraps the error of the transport).
\<close>

datatype error =
    ErrMissingToken
  | RequestFailed error
  | ServiceError Error
  | ErrorListError "error list"
  | CouldNotMarshalForm error
  | CouldNotMarshalJSON error
  | CouldNotBuildRequest error
  | LibError string
  | LibWrapped string error

text \<open>\<^verbatim>\<open>%d\<close> of an \<^verbatim>\<open>int\<close>.\<close>

fun show_nat :: "nat \<Rightarrow> string" where
  "show_nat n =
     (if n < 10 then [char_of (48 + n)]
      else show_nat (n div 10) @ [char_of (48 + n mod 10)])"

declare show_nat.simps [simp del]

definition show_int :: "int \<Rightarrow> string" where
  "show_int i = (if i < 0 then CHR ''-'' # show_nat (nat (- i)) else show_nat (nat i))"

text \<open>\<^verbatim>\<open>func (e *Error) Error() string { return fmt.Sprintf("[%d] %s", e.ErrorCode, e.ErrorText) }\<close>\<close>

definition Error_Error :: "Error \<Rightarrow> string" where
  "Error_Error e = ''['' @ show_int (ErrorCode e) @ ''] '' @ ErrorText e"

text \<open>
  \<^verbatim>\<open>err.Error()\<close>, which is what \<^verbatim>\<open>%v\<close> prints for an error. \<^verbatim>\<open>ErrorList.Error\<close> is
  \<^verbatim>\<open>
  sb := new(strings.Builder)
  sb.WriteString("error:")
  for _, err := range l {
      return fmt.Sprintf(" %v ;", err)
  }
  return sb.String()
  \<close>
  so the loop body returns in its first iteration; only an empty list reaches
  \<^verbatim>\<open>sb.String()\<close>.
\<close>

fun error_string :: "error \<Rightarrow> string"
  and ErrorList_Error :: "error list \<Rightarrow> string" where
  "error_string ErrMissingToken = ''missing MyTimeStation API auth token''"
| "error_string (RequestFailed err) = ''request failed: '' @ error_string err"
| "error_string (ServiceError e) = Error_Error e"
| "error_string (ErrorListError l) = ErrorList_Error l"
| "error_string (CouldNotMarshalForm err) =
     ''could not marshal url-form-encoded: '' @ error_string err"
| "error_string (CouldNotMarshalJSON err) = ''could not marshal json: '' @ error_string err"
| "error_string (CouldNotBuildRequest err) = ''could not build request: '' @ error_string err"
| "error_string (LibError msg) = msg"
| "error_string (LibWrapped msg err) = msg"
| "ErrorList_Error [] = ''error:''"
| "ErrorList_Error (err # rest) = '' '' @ error_string err @ '' ;''"


section \<open>HTTP requests and responses (net/http)\<close>

text \<open>
  \<^verbatim>\<open>http.Header\<close> is a \<^verbatim>\<open>map[string][]string\<close>. \<^verbatim>\<open>Add\<close> appends to the values of a
  key, \<^verbatim>\<open>Set\<close> replaces them. Every key this program uses (\<^verbatim>\<open>User-Agent\<close>, \<^verbatim>\<open>Accept\<close>,
  \<^verbatim>\<open>Authorization\<close>, \<^verbatim>\<open>Content-Type\<close>) is already in canonical form, so the
  canonicalisation of the key is the identity on them.
\<close>

type_synonym Header = "string \<rightharpoonup> string list"

definition Header_Add :: "string \<Rightarrow> string \<Rightarrow> Header \<Rightarrow> Header" where
  "Header_Add key v h = h(key \<mapsto> (case h key of None \<Rightarrow> [] | Some vs \<Rightarrow> vs) @ [v])"

definition Header_Set :: "string \<Rightarrow> string \<Rightarrow> Header \<Rightarrow> Header" where
  "Header_Set key v h = h(key \<mapsto> [v])"

text \<open>
  The parts of \<^verbatim>\<open>*http.Request\<close> and \<^verbatim>\<open>*http.Response\<close> the program reads or writes.
  A request body is absent (\<^verbatim>\<open>nil\<close> reader) or holds the payload bytes. The
  \<^verbatim>\<open>context.Context\<close> a request carries is only handed on to the logger and is left
  out.
\<close>

record request =
  Method :: string
  URL :: string
  Header :: Header
  Body :: "string option"

record response =
  StatusCode :: int
  RespHeader :: Header
  RespBody :: string

text \<open>An \<^verbatim>\<open>http.RoundTripper\<close>: one request in, a response or an error out.\<close>

type_synonym RoundTripper = "request \<Rightarrow> error + response"

subsection \<open>Basic authentication\<close>

text \<open>
  \<^verbatim>\<open>req.SetBasicAuth(username, password)\<close> is
  \<^verbatim>\<open>r.Header.Set("Authorization", "Basic "+basicAuth(username, password))\<close>, and
  \<^verbatim>\<open>basicAuth\<close> is the standard base64 encoding (with padding) of
  \<^verbatim>\<open>username + ":" + password\<close>.
\<close>

definition base64_alphabet :: string where
  "base64_alphabet = ''ABCDEFGHIJKLMNOPQRSTUVWXYZabcdefghijklmnopqrstuvwxyz0123456789+/''"

definition base64_digit :: "nat \<Rightarrow> char" where
  "base64_digit n = base64_alphabet ! (n mod 64)"

fun base64_bytes :: "nat list \<Rightarrow> string" where
  "base64_bytes [] = []"
| "base64_bytes [a] =
     [base64_digit (a div 4), base64_digit ((a mod 4) * 16), CHR ''='', CHR ''='']"
| "base64_bytes [a, b] =
     [base64_digit (a div 4), base64_digit ((a mod 4) * 16 + b div 16),
      base64_digit ((b mod 16) * 4), CHR ''='']"
| "base64_bytes (a # b # c # rest) =
     [base64_digit (a div 4), base64_digit ((a mod 4) * 16 + b div 16),
      base64_digit ((b mod 16) * 4 + c div 64), base64_digit (c mod 64)]
     @ base64_bytes rest"

definition base64_EncodeToString :: "string \<Rightarrow> string" where
  "base64_EncodeToString s = base64_bytes (map of_char s)"

definition basicAuth :: "string \<Rightarrow> string \<Rightarrow> string" where
  "basicAuth username password = base64_EncodeToString (username @ '':'' @ password)"

definition SetBasicAuth :: "string \<Rightarrow> string \<Rightarrow> request \<Rightarrow> request" where
  "SetBasicAuth username password r =
     r\<lparr>Header := Header_Set ''Authorization'' (''Basic '' @ basicAuth username password)
                   (Header r)\<rparr>"

section \<open>Loggers (log/slog)\<close>

datatype Level = LevelDebug | LevelInfo | LevelWarn | LevelError

datatype Writer = Stderr | Stdout

text \<open>
  A \<^verbatim>\<open>slog.Handler\<close> interface value: \<^verbatim>\<open>nil\<close>, a handler of the caller's (of an
  arbitrary type \<open>'h\<close>), or the text handler \<^verbatim>\<open>slog.NewTextHandler(w, &slog.HandlerOptions{Level: level})\<close>.
\<close>

datatype 'h Handler = NilHandler | UserHandler 'h | NewTextHandler Writer Level

text \<open>
  A \<^verbatim>\<open>*slog.Logger\<close>: its handler and what \<^verbatim>\<open>WithGroup\<close> and \<^verbatim>\<open>With\<close> have added to
  it, in order.
\<close>

datatype LoggerContext = Group string | Attr string string

record 'h Logger =
  handler :: "'h Handler"
  withs :: "LoggerContext list"

text \<open>\<^verbatim>\<open>slog.New\<close> panics on a \<^verbatim>\<open>nil\<close> handler; \<open>None\<close> is that panic.\<close>

definition slog_New :: "'h Handler \<Rightarrow> 'h Logger option" where
  "slog_New h = (if h = NilHandler then None else Some \<lparr>handler = h, withs = []\<rparr>)"

definition WithGroup :: "string \<Rightarrow> 'h Logger \<Rightarrow> 'h Logger" where
  "WithGroup name l = l\<lparr>withs := withs l @ [Group name]\<rparr>"

definition With :: "string \<Rightarrow> string \<Rightarrow> 'h Logger \<Rightarrow> 'h Logger" where
  "With key v l = l\<lparr>withs := withs l @ [Attr key v]\<rparr>"

text \<open>The value of an attribute of one log call: \<^verbatim>\<open>slog.String\<close> or \<^verbatim>\<open>slog.Any\<close> of an error.\<close>

datatype AttrValue = StringValue string | AnyError error

text \<open>
  One call of \<^verbatim>\<open>DebugContext\<close>, \<^verbatim>\<open>InfoContext\<close> or \<^verbatim>\<open>ErrorContext\<close>: the logger it was
  made on, the level, the message and the attributes of the call.
\<close>

record 'h LogCall =
  logger :: "'h Logger"
  level :: Level
  msg :: string
  attrs :: "(string \<times> AttrValue) list"

section \<open>Configuration (client.go)\<close>

definition defaultProtocol :: string where "defaultProtocol = ''https''"
definition defaultUserAgent :: string where "defaultUserAgent = ''go.charbar.io/gomts''"
definition defaultHost :: string where "defaultHost = ''api.mytimestation.com''"
definition defaultAPIVersion :: string where "defaultAPIVersion = ''v1.2''"
definition authTokenEnvVar :: string where "authTokenEnvVar = ''MTS_AUTH_TOKEN''"

text \<open>
  \<^verbatim>\<open>Transport http.RoundTripper\<close> is \<open>None\<close> when \<^verbatim>\<open>nil\<close>; \<^verbatim>\<open>LogHandler *slog.Handler\<close>
  is \<open>None\<close> when the pointer is \<^verbatim>\<open>nil\<close>, else the interface value it points to.
\<close>

record 'h Config =
  Protocol :: string
  UserAgent :: string
  Host :: string
  APIVersion :: string
  Debug :: bool
  AuthToken :: string
  Transport :: "RoundTripper option"
  LogHandler :: "'h Handler option"

text \<open>\<^verbatim>\<open>os.Getenv\<close>: the value of a variable, empty when it is not set.\<close>

type_synonym environ = "string \<Rightarrow> string"

definition GetAuthToken :: "environ \<Rightarrow> ('h, 'z) Config_scheme \<Rightarrow> string" where
  "GetAuthToken getenv c = (if AuthToken c = [] then getenv authTokenEnvVar else AuthToken c)"

definition GetUserAgent :: "('h, 'z) Config_scheme \<Rightarrow> string" where
  "GetUserAgent c = (if AuthToken c = [] then defaultUserAgent else UserAgent c)"

definition GetProtocol :: "('h, 'z) Config_scheme \<Rightarrow> string" where
  "GetProtocol c = (if Protocol c = [] then defaultProtocol else Protocol c)"

definition GetAPIVersion :: "('h, 'z) Config_scheme \<Rightarrow> string" where
  "GetAPIVersion c = (if APIVersion c = [] then defaultAPIVersion else APIVersion c)"

definition GetHost :: "('h, 'z) Config_scheme \<Rightarrow> string" where
  "GetHost c = (if Host c = [] then defaultHost else Host c)"

text \<open>\<^verbatim>\<open>fmt.Sprintf("%s://%s/%s", c.GetProtocol(), c.GetHost(), c.GetAPIVersion())\<close>\<close>

definition GetBaseURL :: "('h, 'z) Config_scheme \<Rightarrow> string" where
  "GetBaseURL c = GetProtocol c @ ''://'' @ GetHost c @ ''/'' @ GetAPIVersion c"

text \<open>
  \<^verbatim>\<open>
  if c.LogHandler != nil { return slog.New(*c.LogHandler) }
  level := slog.LevelInfo.Level()
  if c.Debug { level = slog.LevelDebug.Level() }
  return slog.New(slog.NewTextHandler(os.Stderr, &slog.HandlerOptions{Level: level}))
  \<close>
\<close>

definition GetLogger :: "('h, 'z) Config_scheme \<Rightarrow> 'h Logger option" where
  "GetLogger c =
     (case LogHandler c of
        Some h \<Rightarrow> slog_New h
      | None \<Rightarrow>
          (let level = LevelInfo;
               level = (if Debug c then LevelDebug else level)
           in slog_New (NewTextHandler Stderr level)))"


section \<open>The libraries the transport calls\<close>

text \<open>
  What the program takes from outside this repository: the process environment, the
  UUID generator, the default transport, the default logger, the dumps of
  \<^verbatim>\<open>net/http/httputil\<close> (bytes or an error), the JSON decoder run on a body for an
  \<^verbatim>\<open>ErrorResponse\<close> (the value the target holds afterwards, starting from the zero
  value, and the error returned) and the table \<^verbatim>\<open>http.StatusText\<close>. A dump reads
  the body it is given and puts the bytes back, so it leaves the request or response
  as it was.
\<close>

record 'h lib =
  Getenv :: environ
  uuid_New :: string
  DefaultTransport :: RoundTripper
  slog_Default :: "'h Logger"
  DumpRequestOut :: "request \<Rightarrow> error + string"
  DumpResponse :: "response \<Rightarrow> error + string"
  Decode_ErrorResponse :: "string \<Rightarrow> ErrorResponse \<times> error option"
  StatusText :: "int \<Rightarrow> string"

text \<open>
  What a call does besides returning, in order: a request or response handed to a dump,
  a call on a logger, the request handed to the wrapped transport, a response body run
  through the JSON decoder, a response body closed.
\<close>

datatype 'h event =
    DumpedRequest request
  | DumpedResponse response
  | Logged "'h LogCall"
  | Sent request
  | DecodedBody response
  | ClosedBody response

section \<open>The authenticating transport\<close>

record 'h mtsTransport =
  conf :: "'h Config"
  logr :: "'h Logger"

definition GetTransport :: "('h, 'y) lib_scheme \<Rightarrow> 'h Config \<Rightarrow> 'h mtsTransport" where
  "GetTransport lib c = \<lparr>conf = c, logr = slog_Default lib\<rparr>"

definition getWrappedTransport :: "('h, 'y) lib_scheme \<Rightarrow> 'h mtsTransport \<Rightarrow> RoundTripper" where
  "getWrappedTransport lib t =
     (case Transport (conf t) of Some rt \<Rightarrow> rt | None \<Rightarrow> DefaultTransport lib)"

text \<open>
  \<^verbatim>\<open>
  var errResp ErrorResponse
  defer resp.Body.Close()
  json.NewDecoder(resp.Body).Decode(&errResp)
  err := errResp.Error
  if err.ErrorCode == 0 { err.ErrorCode = resp.StatusCode }
  if err.ErrorText == "" { err.ErrorText = http.StatusText(err.ErrorCode) }
  return &err
  \<close>
  The error of \<^verbatim>\<open>Decode\<close> is dropped.
\<close>

definition mapResponseToError ::
  "('h, 'y) lib_scheme \<Rightarrow> response \<Rightarrow> Error \<times> 'h event list" where
  "mapResponseToError lib resp =
     (let errResp = fst (Decode_ErrorResponse lib (RespBody resp));
          err = Error errResp;
          err = (if ErrorCode err = 0 then err\<lparr>ErrorCode := StatusCode resp\<rparr> else err);
          err = (if ErrorText err = []
                 then err\<lparr>ErrorText := StatusText lib (ErrorCode err)\<rparr> else err)
      in (err, [DecodedBody resp, ClosedBody resp]))"

text \<open>
  \<^verbatim>\<open>
  logr := t.logr.With(slog.String("correlationID", correlationID))
  reqBytes, err := httputil.DumpRequestOut(req, true)
  if err != nil {
      logr.ErrorContext(req.Context(), "failed to dump request", slog.Any("error", err))
  }
  t.logr.DebugContext(req.Context(), "outbound request", slog.String("request", string(reqBytes)))
  \<close>
  The dump returns no bytes with an error, so the string logged then is empty.
\<close>

definition logRequest ::
  "('h, 'y) lib_scheme \<Rightarrow> 'h mtsTransport \<Rightarrow> request \<Rightarrow> string \<Rightarrow> 'h event list" where
  "logRequest lib t req correlationID =
     (let logr' = With ''correlationID'' correlationID (logr t)
      in case DumpRequestOut lib req of
           Inl err \<Rightarrow>
             [DumpedRequest req,
              Logged \<lparr>logger = logr', level = LevelError, msg = ''failed to dump request'',
                      attrs = [(''error'', AnyError err)]\<rparr>,
              Logged \<lparr>logger = logr t, level = LevelDebug, msg = ''outbound request'',
                      attrs = [(''request'', StringValue [])]\<rparr>]
         | Inr reqBytes \<Rightarrow>
             [DumpedRequest req,
              Logged \<lparr>logger = logr t, level = LevelDebug, msg = ''outbound request'',
                      attrs = [(''request'', StringValue reqBytes)]\<rparr>])"

text \<open>
  \<^verbatim>\<open>
  logr := t.logr.With(slog.String("correlationID", correlationID))
  respBytes, err := httputil.DumpResponse(resp, true)
  if err != nil {
      logr.ErrorContext(resp.Request.Context(), "failed to dump response", slog.Any("error", err))
  }
  t.logr.DebugContext(resp.Request.Context(), "received response", slog.String("r", string(respBytes)))
  \<close>
\<close>

definition logResponse ::
  "('h, 'y) lib_scheme \<Rightarrow> 'h mtsTransport \<Rightarrow> response \<Rightarrow> string \<Rightarrow> 'h event list" where
  "logResponse lib t resp correlationID =
     (let logr' = With ''correlationID'' correlationID (logr t)
      in case DumpResponse lib resp of
           Inl err \<Rightarrow>
             [DumpedResponse resp,
              Logged \<lparr>logger = logr', level = LevelError, msg = ''failed to dump response'',
                      attrs = [(''error'', AnyError err)]\<rparr>,
              Logged \<lparr>logger = logr t, level = LevelDebug, msg = ''received response'',
                      attrs = [(''r'', StringValue [])]\<rparr>]
         | Inr respBytes \<Rightarrow>
             [DumpedResponse resp,
              Logged \<lparr>logger = logr t, level = LevelDebug, msg = ''received response'',
                      attrs = [(''r'', StringValue respBytes)]\<rparr>])"

text \<open>
  \<^verbatim>\<open>mtsTransport.RoundTrip\<close>, statement by statement: the token check, the correlation
  identifier, the two \<^verbatim>\<open>Header.Add\<close>, the dump of the request under \<^verbatim>\<open>Debug\<close>,
  \<^verbatim>\<open>SetBasicAuth\<close>, the wrapped transport, the dump of the response under \<^verbatim>\<open>Debug\<close>,
  and the status check. The result is Go's pair \<^verbatim>\<open>(*http.Response, error)\<close>, of which
  the code always returns exactly one non-nil component.
\<close>

definition RoundTrip ::
  "('h, 'y) lib_scheme \<Rightarrow> 'h mtsTransport \<Rightarrow> request \<Rightarrow> (error + response) \<times> 'h event list"
  where
  "RoundTrip lib t req =
     (if GetAuthToken (Getenv lib) (conf t) = [] then (Inl ErrMissingToken, [])
      else
        let correlationID = uuid_New lib;
            req = req\<lparr>Header := Header_Add ''User-Agent'' (GetUserAgent (conf t)) (Header req)\<rparr>;
            req = req\<lparr>Header := Header_Add ''Accept'' ''application/json'' (Header req)\<rparr>;
            tr = (if Debug (conf t) then logRequest lib t req correlationID else []);
            req = SetBasicAuth (GetAuthToken (Getenv lib) (conf t)) [] req;
            tr = tr @ [Sent req]
        in case getWrappedTransport lib t req of
             Inl err \<Rightarrow> (Inl (RequestFailed err), tr)
           | Inr resp \<Rightarrow>
               let tr = tr @ (if Debug (conf t) then logResponse lib t resp correlationID else [])
               in if StatusCode resp < 200 \<or> StatusCode resp > 299
                  then let (e, tr') = mapResponseToError lib resp
                       in (Inl (ServiceError e), tr @ tr')
                  else (Inr resp, tr))"


section \<open>Request bodies (department.go, employee.go)\<close>

text \<open>
  The field values of the request structs: \<^verbatim>\<open>string\<close>, \<^verbatim>\<open>float64\<close> (as its IEEE 754
  bits), \<^verbatim>\<open>map[string]string\<close>, \<^verbatim>\<open>bool\<close>, and a pointer to one of them (\<open>None\<close> is
  \<^verbatim>\<open>nil\<close>).
\<close>

datatype gval =
    GString string
  | GFloat64 "64 word"
  | GMap "string \<rightharpoonup> string"
  | GBool bool
  | GPtr "gval option"

text \<open>
  A struct tag \<^verbatim>\<open>url:"name,omitempty"\<close> or \<^verbatim>\<open>json:"name,omitempty"\<close>, parsed: the name
  and whether the option \<^verbatim>\<open>omitempty\<close> is there. A struct field as reflection shows
  it: its Go name, its two tags when present, and its value.
\<close>

record tag =
  tag_name :: string
  tag_omitempty :: bool

record field =
  field_name :: string
  url_tag :: "tag option"
  json_tag :: "tag option"
  field_val :: gval

record EmployeeUpdateRequest =
  Name :: "string option"
  DepartmentID :: "string option"
  DepartmentName :: "string option"
  CustomEmployeeID :: "string option"
  Title :: "string option"
  HourlyRate :: "64 word option"
  PIN :: "string option"
  CustomFields :: "string \<rightharpoonup> string"
  ConvertPrimaryDepartment :: "bool option"

record EmployeeCreateRequest =
  Name :: string
  DepartmentID :: string
  DepartmentName :: string
  CustomEmployeeID :: string
  Title :: string
  HourlyRate :: "64 word"
  PIN :: string
  CustomFields :: "string \<rightharpoonup> string"

record DepartmentCreateRequest =
  Name :: string

text \<open>
  The dynamic value of \<^verbatim>\<open>body any\<close> when it is not \<^verbatim>\<open>nil\<close>: the resource clients pass
  a \<^verbatim>\<open>*DepartmentCreateRequest\<close>, a \<^verbatim>\<open>*EmployeeCreateRequest\<close> or a
  \<^verbatim>\<open>*EmployeeUpdateRequest\<close>, each of which may be a \<^verbatim>\<open>nil\<close> pointer (\<open>None\<close>).
\<close>

datatype body =
    DepartmentCreate "DepartmentCreateRequest option"
  | EmployeeCreate "EmployeeCreateRequest option"
  | EmployeeUpdate "EmployeeUpdateRequest option"

text \<open>
  \<^verbatim>\<open>_, ok := body.(formRequest)\<close>: \<^verbatim>\<open>func (DepartmentCreateRequest) form() {}\<close> and
  \<^verbatim>\<open>func (EmployeeCreateRequest) form() {}\<close> are declared, on value receivers, so the
  pointer types have the method too; \<^verbatim>\<open>EmployeeUpdateRequest\<close> has none.
\<close>

fun formRequest :: "body \<Rightarrow> bool" where
  "formRequest (DepartmentCreate _) = True"
| "formRequest (EmployeeCreate _) = True"
| "formRequest (EmployeeUpdate _) = False"

definition Tag :: "string \<Rightarrow> bool \<Rightarrow> tag option" where
  "Tag name omitempty = Some \<lparr>tag_name = name, tag_omitempty = omitempty\<rparr>"

definition GStringPtr :: "string option \<Rightarrow> gval" where
  "GStringPtr p = GPtr (map_option GString p)"

text \<open>The struct declarations, field by field, with their tags.\<close>

definition fields_DepartmentCreateRequest :: "DepartmentCreateRequest \<Rightarrow> field list" where
  "fields_DepartmentCreateRequest r =
     [\<lparr>field_name = ''Name'', url_tag = Tag ''name'' False, json_tag = None,
       field_val = GString (DepartmentCreateRequest.Name r)\<rparr>]"

definition fields_EmployeeCreateRequest :: "EmployeeCreateRequest \<Rightarrow> field list" where
  "fields_EmployeeCreateRequest r =
     [\<lparr>field_name = ''Name'', url_tag = Tag ''name'' False, json_tag = None,
       field_val = GString (EmployeeCreateRequest.Name r)\<rparr>,
      \<lparr>field_name = ''DepartmentID'', url_tag = Tag ''department_id'' True, json_tag = None,
       field_val = GString (EmployeeCreateRequest.DepartmentID r)\<rparr>,
      \<lparr>field_name = ''DepartmentName'', url_tag = Tag ''department_name'' True,
       json_tag = None, field_val = GString (EmployeeCreateRequest.DepartmentName r)\<rparr>,
      \<lparr>field_name = ''CustomEmployeeID'', url_tag = Tag ''custom_employee_id'' True,
       json_tag = None, field_val = GString (EmployeeCreateRequest.CustomEmployeeID r)\<rparr>,
      \<lparr>field_name = ''Title'', url_tag = Tag ''title'' True, json_tag = None,
       field_val = GString (EmployeeCreateRequest.Title r)\<rparr>,
      \<lparr>field_name = ''HourlyRate'', url_tag = Tag ''hourly_rate'' True, json_tag = None,
       field_val = GFloat64 (EmployeeCreateRequest.HourlyRate r)\<rparr>,
      \<lparr>field_name = ''PIN'', url_tag = Tag ''pin'' True, json_tag = None,
       field_val = GString (EmployeeCreateRequest.PIN r)\<rparr>,
      \<lparr>field_name = ''CustomFields'', url_tag = Tag ''custom_fields'' True, json_tag = None,
       field_val = GMap (EmployeeCreateRequest.CustomFields r)\<rparr>]"

definition fields_EmployeeUpdateRequest :: "EmployeeUpdateRequest \<Rightarrow> field list" where
  "fields_EmployeeUpdateRequest r =
     [\<lparr>field_name = ''Name'', url_tag = None, json_tag = Tag ''name'' False,
       field_val = GStringPtr (EmployeeUpdateRequest.Name r)\<rparr>,
      \<lparr>field_name = ''DepartmentID'', url_tag = None, json_tag = Tag ''department_id'' True,
       field_val = GStringPtr (EmployeeUpdateRequest.DepartmentID r)\<rparr>,
      \<lparr>field_name = ''DepartmentName'', url_tag = None,
       json_tag = Tag ''department_name'' True,
       field_val = GStringPtr (EmployeeUpdateRequest.DepartmentName r)\<rparr>,
      \<lparr>field_name = ''CustomEmployeeID'', url_tag = None,
       json_tag = Tag ''custom_employee_id'' True,
       field_val = GStringPtr (EmployeeUpdateRequest.CustomEmployeeID r)\<rparr>,
      \<lparr>field_name = ''Title'', url_tag = None, json_tag = Tag ''title'' True,
       field_val = GStringPtr (EmployeeUpdateRequest.Title r)\<rparr>,
      \<lparr>field_name = ''HourlyRate'', url_tag = None, json_tag = Tag ''hourly_rate'' True,
       field_val = GPtr (map_option GFloat64 (EmployeeUpdateRequest.HourlyRate r))\<rparr>,
      \<lparr>field_name = ''PIN'', url_tag = None, json_tag = Tag ''pin'' True,
       field_val = GStringPtr (EmployeeUpdateRequest.PIN r)\<rparr>,
      \<lparr>field_name = ''CustomFields'', url_tag = None, json_tag = Tag ''custom_fields'' True,
       field_val = GMap (EmployeeUpdateRequest.CustomFields r)\<rparr>,
      \<lparr>field_name = ''ConvertPrimaryDepartment'', url_tag = None,
       json_tag = Tag ''convert_primary_department'' True,
       field_val = GPtr (map_option GBool (EmployeeUpdateRequest.ConvertPrimaryDepartment r))\<rparr>]"

text \<open>The fields of the struct a body points to; \<open>None\<close> for a \<^verbatim>\<open>nil\<close> pointer.\<close>

fun reflect :: "body \<Rightarrow> field list option" where
  "reflect (DepartmentCreate p) = map_option fields_DepartmentCreateRequest p"
| "reflect (EmployeeCreate p) = map_option fields_EmployeeCreateRequest p"
| "reflect (EmployeeUpdate p) = map_option fields_EmployeeUpdateRequest p"


section \<open>The libraries the dispatcher calls\<close>

text \<open>\<^verbatim>\<open>url.Values\<close> is a \<^verbatim>\<open>map[string][]string\<close>; \<^verbatim>\<open>Add\<close> appends to the values of a key.\<close>

type_synonym Values = "string \<rightharpoonup> string list"

definition Values_Add :: "string \<Rightarrow> string \<Rightarrow> Values \<Rightarrow> Values" where
  "Values_Add key v vs = vs(key \<mapsto> (case vs key of None \<Rightarrow> [] | Some xs \<Rightarrow> xs) @ [v])"

text \<open>
  What \<^verbatim>\<open>encoding/json\<close> writes for a body: \<^verbatim>\<open>null\<close> for a \<^verbatim>\<open>nil\<close> pointer, else an
  object with a member for each field it keeps, in the order of the fields.
\<close>

datatype json_doc = JNull | JObject "(string \<times> gval) list"

text \<open>
  Beyond the libraries of the transport: the check \<^verbatim>\<open>http.NewRequest\<close> makes of the
  method and the URL, \<^verbatim>\<open>url.Values.Encode\<close>, \<^verbatim>\<open>fmt.Sprint\<close> of a \<^verbatim>\<open>float64\<close> and of
  a map, whether \<^verbatim>\<open>encoding/json\<close> takes a \<^verbatim>\<open>float64\<close> for empty, the bytes (or the
  error) of the JSON encoder, the message of the \<^verbatim>\<open>*url.Error\<close> that \<^verbatim>\<open>http.Client.Do\<close>
  makes from a method, a URL and the error of the transport, and \<^verbatim>\<open>Body.Close\<close>.
\<close>

record 'h dlib = "'h lib" +
  NewRequest_error :: "string \<Rightarrow> string \<Rightarrow> error option"
  Values_Encode :: "Values \<Rightarrow> string"
  Sprint_float64 :: "64 word \<Rightarrow> string"
  Sprint_map :: "(string \<rightharpoonup> string) \<Rightarrow> string"
  json_isEmptyFloat :: "64 word \<Rightarrow> bool"
  json_Encode :: "json_doc \<Rightarrow> error + string"
  url_Error_Error :: "string \<Rightarrow> string \<Rightarrow> error \<Rightarrow> string"
  Body_Close :: "response \<Rightarrow> error option"

section \<open>Encoding a body\<close>

text \<open>
  The name a field is encoded under and whether it is optional: the name of its tag,
  or its Go name when it has no tag or the tag has no name. A field whose tag is
  exactly \<^verbatim>\<open>-\<close> is left out.
\<close>

definition tag_key :: "tag option \<Rightarrow> string \<Rightarrow> string \<times> bool" where
  "tag_key t fname =
     (case t of
        None \<Rightarrow> (fname, False)
      | Some t \<Rightarrow> (if tag_name t = [] then fname else tag_name t, tag_omitempty t))"

definition tag_skip :: "tag option \<Rightarrow> bool" where
  "tag_skip t = (t = Some \<lparr>tag_name = ''-'', tag_omitempty = False\<rparr>)"

text \<open>
  \<^verbatim>\<open>isEmptyValue\<close> of go-querystring: a string or map of length 0, \<^verbatim>\<open>false\<close>, a float
  equal to 0 (either sign), a \<^verbatim>\<open>nil\<close> pointer.
\<close>

definition isEmptyValue :: "gval \<Rightarrow> bool" where
  "isEmptyValue v =
     (case v of
        GString s \<Rightarrow> s = []
      | GFloat64 w \<Rightarrow> w = 0 \<or> w = 0x8000000000000000
      | GMap m \<Rightarrow> m = Map.empty
      | GBool b \<Rightarrow> \<not> b
      | GPtr p \<Rightarrow> p = None)"

text \<open>
  \<^verbatim>\<open>valueString\<close> of go-querystring: \<^verbatim>\<open>fmt.Sprint\<close> of the value behind the pointers,
  the empty string for a \<^verbatim>\<open>nil\<close> pointer.
\<close>

fun valueString :: "('h, 'y) dlib_scheme \<Rightarrow> gval \<Rightarrow> string" where
  "valueString lib (GString s) = s"
| "valueString lib (GFloat64 w) = Sprint_float64 lib w"
| "valueString lib (GMap m) = Sprint_map lib m"
| "valueString lib (GBool b) = (if b then ''true'' else ''false'')"
| "valueString lib (GPtr None) = []"
| "valueString lib (GPtr (Some v)) = valueString lib v"

text \<open>
  The loop of go-querystring over the fields of a struct of exported fields of these
  kinds: a field is skipped when its tag is \<^verbatim>\<open>-\<close>, or when it is \<^verbatim>\<open>omitempty\<close> and
  empty; else its value is added under its name.
\<close>

fun reflectValue :: "('h, 'y) dlib_scheme \<Rightarrow> Values \<Rightarrow> field list \<Rightarrow> Values" where
  "reflectValue lib values [] = values"
| "reflectValue lib values (sf # rest) =
     (if tag_skip (url_tag sf) then reflectValue lib values rest
      else if snd (tag_key (url_tag sf) (field_name sf)) \<and> isEmptyValue (field_val sf)
      then reflectValue lib values rest
      else reflectValue lib
             (Values_Add (fst (tag_key (url_tag sf) (field_name sf)))
                (valueString lib (field_val sf)) values) rest)"

text \<open>
  \<^verbatim>\<open>query.Values(body)\<close>: empty values for a \<^verbatim>\<open>nil\<close> pointer, else the values of the
  fields. It returns an error only for a body that is not a struct, which none of the
  request types is.
\<close>

definition query_Values :: "('h, 'y) dlib_scheme \<Rightarrow> body \<Rightarrow> error + Values" where
  "query_Values lib b =
     (case reflect b of
        None \<Rightarrow> Inr Map.empty
      | Some fs \<Rightarrow> Inr (reflectValue lib Map.empty fs))"

text \<open>
  \<^verbatim>\<open>encoding/json\<close> on a struct of exported fields with distinct names: a field is
  skipped when its tag is \<^verbatim>\<open>-\<close>, or when it is \<^verbatim>\<open>omitempty\<close> and empty (a string or map
  of length 0, \<^verbatim>\<open>false\<close>, a \<^verbatim>\<open>nil\<close> pointer, a float the library takes for empty).
\<close>

definition json_isEmptyValue :: "('h, 'y) dlib_scheme \<Rightarrow> gval \<Rightarrow> bool" where
  "json_isEmptyValue lib v =
     (case v of
        GString s \<Rightarrow> s = []
      | GFloat64 w \<Rightarrow> json_isEmptyFloat lib w
      | GMap m \<Rightarrow> m = Map.empty
      | GBool b \<Rightarrow> \<not> b
      | GPtr p \<Rightarrow> p = None)"

fun json_members :: "('h, 'y) dlib_scheme \<Rightarrow> field list \<Rightarrow> (string \<times> gval) list" where
  "json_members lib [] = []"
| "json_members lib (sf # rest) =
     (if tag_skip (json_tag sf) then json_members lib rest
      else if snd (tag_key (json_tag sf) (field_name sf)) \<and> json_isEmptyValue lib (field_val sf)
      then json_members lib rest
      else (fst (tag_key (json_tag sf) (field_name sf)), field_val sf) # json_members lib rest)"

definition json_Marshal :: "('h, 'y) dlib_scheme \<Rightarrow> body \<Rightarrow> json_doc" where
  "json_Marshal lib b =
     (case reflect b of None \<Rightarrow> JNull | Some fs \<Rightarrow> JObject (json_members lib fs))"

section \<open>The generic request dispatcher\<close>

text \<open>
  \<^verbatim>\<open>http.NewRequest(method, url, body)\<close>: an error for a method or URL it refuses, else
  a request with an empty header; an empty method means \<^verbatim>\<open>GET\<close>.
\<close>

definition http_NewRequest ::
  "('h, 'y) dlib_scheme \<Rightarrow> string \<Rightarrow> string \<Rightarrow> string option \<Rightarrow> error + request" where
  "http_NewRequest lib method reqURL bodyReader =
     (case NewRequest_error lib method reqURL of
        Some err \<Rightarrow> Inl err
      | None \<Rightarrow>
          Inr \<lparr>Method = (if method = [] then ''GET'' else method), URL = reqURL,
               Header = Map.empty, Body = bodyReader\<rparr>)"

text \<open>
  \<^verbatim>\<open>newHTTPRequest\<close>: \<^verbatim>\<open>bodyReader\<close> and \<^verbatim>\<open>contentType\<close> start as \<^verbatim>\<open>nil\<close> and \<^verbatim>\<open>""\<close> and
  are set only under \<^verbatim>\<open>if body != nil\<close>; \<^verbatim>\<open>req.Header.Add("Content-Type", contentType)\<close>
  follows for every request built.
\<close>

definition newHTTPRequest ::
  "('h, 'y) dlib_scheme \<Rightarrow> string \<Rightarrow> string \<Rightarrow> body option \<Rightarrow> error + request" where
  "newHTTPRequest lib method reqURL body =
     (case (case body of
              None \<Rightarrow> Inr (None, [])
            | Some b \<Rightarrow>
                if formRequest b
                then (case query_Values lib b of
                        Inl err \<Rightarrow> Inl (CouldNotMarshalForm err)
                      | Inr values \<Rightarrow>
                          Inr (Some (Values_Encode lib values),
                               ''application/x-www-form-urlencoded''))
                else (case json_Encode lib (json_Marshal lib b) of
                        Inl err \<Rightarrow> Inl (CouldNotMarshalJSON err)
                      | Inr buf \<Rightarrow> Inr (Some buf, ''application/json''))) of
        Inl err \<Rightarrow> Inl err
      | Inr (bodyReader, contentType) \<Rightarrow>
          (case http_NewRequest lib method reqURL bodyReader of
             Inl err \<Rightarrow> Inl (CouldNotBuildRequest err)
           | Inr req \<Rightarrow>
               Inr (req\<lparr>Header := Header_Add ''Content-Type'' contentType (Header req)\<rparr>)))"

text \<open>
  \<^verbatim>\<open>client\<close>: the configuration, the logger, and the \<^verbatim>\<open>http.Client\<close>, which is
  \<^verbatim>\<open>&http.Client{Transport: transport}\<close> and so stands for its transport.
  \<^verbatim>\<open>newClient\<close> panics when \<^verbatim>\<open>GetLogger\<close> does (\<open>None\<close>).
\<close>

record 'h client =
  c_conf :: "'h Config"
  c_logr :: "'h Logger"
  httpClient :: "'h mtsTransport"

definition newClient :: "('h, 'y) lib_scheme \<Rightarrow> 'h Config \<Rightarrow> 'h client option" where
  "newClient lib cf =
     (case GetLogger cf of
        None \<Rightarrow> None
      | Some l \<Rightarrow>
          let lg = WithGroup ''gomts'' l;
              transport = GetTransport lib cf;
              transport = transport\<lparr>logr := WithGroup ''transport'' lg\<rparr>
          in Some \<lparr>c_conf = cf, c_logr = lg, httpClient = transport\<rparr>)"

text \<open>
  \<^verbatim>\<open>http.Client.Do\<close> on a client with this transport and nothing else set: the
  response of the transport, or its error inside a \<^verbatim>\<open>*url.Error\<close>. The transport
  turns every status outside 200..299 into an error, so \<^verbatim>\<open>Do\<close> never sees a redirect.
\<close>

definition Client_Do ::
  "('h, 'y) dlib_scheme \<Rightarrow> 'h mtsTransport \<Rightarrow> request \<Rightarrow> (error + response) \<times> 'h event list"
  where
  "Client_Do lib t req =
     (case RoundTrip lib t req of
        (Inl err, tr) \<Rightarrow>
          (Inl (LibWrapped (url_Error_Error lib (Method req) (URL req) err) err), tr)
      | (Inr resp, tr) \<Rightarrow> (Inr resp, tr))"

text \<open>
  \<^verbatim>\<open>
  var out T
  dec := json.NewDecoder(resp.Body)
  defer func() {
      if err := resp.Body.Close(); err != nil {
          c.logr.ErrorContext(resp.Request.Context(), "failed to close response body", slog.Any("error", err))
      }
  }()
  return &out, dec.Decode(&out)
  \<close>
  The type parameter \<^verbatim>\<open>T\<close> is given by \<open>dec\<close>: what \<^verbatim>\<open>out\<close> holds after decoding a
  body into it, and the error of the decoder. The result is Go's pair
  \<^verbatim>\<open>(*T, error)\<close>.
\<close>

definition mapResponseBody ::
  "('h, 'y) dlib_scheme \<Rightarrow> (string \<Rightarrow> 'T \<times> error option) \<Rightarrow> 'h client \<Rightarrow> response
     \<Rightarrow> ('T option \<times> error option) \<times> 'h event list" where
  "mapResponseBody lib dec c resp =
     (let (out, err) = dec (RespBody resp)
      in ((Some out, err),
          [DecodedBody resp, ClosedBody resp] @
          (case Body_Close lib resp of
             None \<Rightarrow> []
           | Some cerr \<Rightarrow>
               [Logged \<lparr>logger = c_logr c, level = LevelError,
                        msg = ''failed to close response body'',
                        attrs = [(''error'', AnyError cerr)]\<rparr>])))"

definition httpDo ::
  "('h, 'y) dlib_scheme \<Rightarrow> (string \<Rightarrow> 'T \<times> error option) \<Rightarrow> 'h client \<Rightarrow> string \<Rightarrow> string
     \<Rightarrow> body option \<Rightarrow> ('T option \<times> error option) \<times> 'h event list" where
  "httpDo lib dec c method path body =
     (let reqURL = GetBaseURL (c_conf c) @ path
      in case newHTTPRequest lib method reqURL body of
           Inl err \<Rightarrow> ((None, Some err), [])
         | Inr req \<Rightarrow>
             (case Client_Do lib (httpClient c) req of
                (Inl err, tr) \<Rightarrow> ((None, Some err), tr)
              | (Inr resp, tr) \<Rightarrow>
                  (let (r, tr') = mapResponseBody lib dec c resp in (r, tr @ tr'))))"

definition httpGet ::
  "('h, 'y) dlib_scheme \<Rightarrow> (string \<Rightarrow> 'T \<times> error option) \<Rightarrow> 'h client \<Rightarrow> string
     \<Rightarrow> ('T option \<times> error option) \<times> 'h event list" where
  "httpGet lib dec c path = httpDo lib dec c ''GET'' path None"

definition httpPut ::
  "('h, 'y) dlib_scheme \<Rightarrow> (string \<Rightarrow> 'T \<times> error option) \<Rightarrow> 'h client \<Rightarrow> string \<Rightarrow> body
     \<Rightarrow> ('T option \<times> error option) \<times> 'h event list" where
  "httpPut lib dec c path body = httpDo lib dec c ''PUT'' path (Some body)"

definition httpPost ::
  "('h, 'y) dlib_scheme \<Rightarrow> (string \<Rightarrow> 'T \<times> error option) \<Rightarrow> 'h client \<Rightarrow> string \<Rightarrow> body
     \<Rightarrow> ('T option \<times> error option) \<times> 'h event list" where
  "httpPost lib dec c path body = httpDo lib dec c ''POST'' path (Some body)"

definition httpDelete ::
  "('h, 'y) dlib_scheme \<Rightarrow> (string \<Rightarrow> 'T \<times> error option) \<Rightarrow> 'h client \<Rightarrow> string
     \<Rightarrow> ('T option \<times> error option) \<times> 'h event list" where
  "httpDelete lib dec c path = httpDo lib dec c ''DELETE'' path None"


section \<open>The sweeper (internal/sweeper/sweeper.go)\<close>

text \<open>
  The part of the \<^verbatim>\<open>gomts.Client\<close> interface that \<^verbatim>\<open>Sweep\<close> calls:
  \<^verbatim>\<open>Employees().Delete(ctx, id)\<close> and \<^verbatim>\<open>Departments().Delete(ctx, id)\<close>, of which it
  keeps the error only. A call acts on the service, whose state \<open>'s\<close> it may change.
\<close>

record 's Client =
  Employees_Delete :: "string \<Rightarrow> 's \<Rightarrow> error option \<times> 's"
  Departments_Delete :: "string \<Rightarrow> 's \<Rightarrow> error option \<times> 's"

text \<open>The mutex of the sweeper is left out: one call of \<^verbatim>\<open>Sweep\<close> is modelled.\<close>

record ('h, 's) Sweeper =
  sweeper_c :: "'s Client"
  sweeper_logr :: "'h Logger"
  employeeIDs :: "string list"
  departmentIDs :: "string list"

definition NewSweeper :: "'s Client \<Rightarrow> 'h Logger \<Rightarrow> ('h, 's) Sweeper" where
  "NewSweeper cl lg =
     \<lparr>sweeper_c = cl, sweeper_logr = WithGroup ''sweeper'' lg,
      employeeIDs = [], departmentIDs = []\<rparr>"

text \<open>
  One of the two loops of \<^verbatim>\<open>Sweep\<close>:
  \<^verbatim>\<open>
  for _, id := range ids {
      if _, err := delete(ctx, id); err != nil {
          errList = append(errList, err)
      }
      s.logr.InfoContext(ctx, message, slog.Any(key, id))
  }
  \<close>
\<close>

fun sweep_loop ::
  "(string \<Rightarrow> 's \<Rightarrow> error option \<times> 's) \<Rightarrow> 'h Logger \<Rightarrow> string \<Rightarrow> string \<Rightarrow> string list
     \<Rightarrow> error list \<times> 'h event list \<times> 's \<Rightarrow> error list \<times> 'h event list \<times> 's" where
  "sweep_loop del lg message key [] st = st"
| "sweep_loop del lg message key (i # ids) (errList, evs, s) =
     (let (err, s') = del i s;
          errList' = (case err of Some e \<Rightarrow> errList @ [e] | None \<Rightarrow> errList)
      in sweep_loop del lg message key ids
           (errList',
            evs @ [Logged \<lparr>logger = lg, level = LevelInfo, msg = message,
                           attrs = [(key, StringValue i)]\<rparr>],
            s'))"

text \<open>
  \<^verbatim>\<open>Sweep\<close>: both loops, then \<^verbatim>\<open>if len(errList) == 0 { return nil }\<close> and
  \<^verbatim>\<open>return errList\<close>.
\<close>

definition Sweep ::
  "('h, 's) Sweeper \<Rightarrow> 's \<Rightarrow> error option \<times> 'h event list \<times> 's" where
  "Sweep sw s =
     (let st = sweep_loop (Employees_Delete (sweeper_c sw)) (sweeper_logr sw)
                 ''deleted employee'' ''employee_id'' (employeeIDs sw) ([], [], s);
          (errList, evs, s') =
               sweep_loop (Departments_Delete (sweeper_c sw)) (sweeper_logr sw)
                 ''deleted department'' ''department_id'' (departmentIDs sw) st
      in if length errList = 0 then (None, evs, s')
         else (Some (ErrorListError errList), evs, s'))"

text \<open>
  The list of errors of the test helpers of the package, \<^verbatim>\<open>errorList\<close>, renders every
  element:
  \<^verbatim>\<open>
  sb.WriteString("errors:")
  for _, err := range e {
      sb.WriteString(fmt.Sprintf(" %v;", err))
  }
  return sb.String()
  \<close>
\<close>

definition errorList_Error :: "error list \<Rightarrow> string" where
  "errorList_Error e = ''errors:'' @ concat (map (\<lambda>err. '' '' @ error_string err @ '';'') e)"

section \<open>Reading a trace\<close>

text \<open>
  The requests handed to the dump, the requests handed to the wrapped transport, the
  log calls, and the responses whose body was decoded, in the order of the trace.
\<close>

definition dumped_requests :: "'h event list \<Rightarrow> request list" where
  "dumped_requests tr = concat (map (\<lambda>e. case e of DumpedRequest r \<Rightarrow> [r] | _ \<Rightarrow> []) tr)"

definition sent_requests :: "'h event list \<Rightarrow> request list" where
  "sent_requests tr = concat (map (\<lambda>e. case e of Sent r \<Rightarrow> [r] | _ \<Rightarrow> []) tr)"

definition log_calls :: "'h event list \<Rightarrow> 'h LogCall list" where
  "log_calls tr = concat (map (\<lambda>e. case e of Logged c \<Rightarrow> [c] | _ \<Rightarrow> []) tr)"

definition decoded_bodies :: "'h event list \<Rightarrow> response list" where
  "decoded_bodies tr = concat (map (\<lambda>e. case e of DecodedBody r \<Rightarrow> [r] | _ \<Rightarrow> []) tr)"

text \<open>The debug-level log calls of a trace.\<close>

definition debug_calls :: "'h event list \<Rightarrow> 'h LogCall list" where
  "debug_calls tr = filter (\<lambda>c. level c = LevelDebug) (log_calls tr)"

text \<open>Whether a log call was made on a logger that carries the correlation identifier.\<close>

definition tagged :: "string \<Rightarrow> 'h LogCall \<Rightarrow> bool" where
  "tagged correlationID c = (Attr ''correlationID'' correlationID \<in> set (withs (logger c)))"

text \<open>
  The request \<^verbatim>\<open>RoundTrip\<close> has built when it reaches the dump (the two headers added),
  and the one it hands to the wrapped transport (the credentials set on that).
\<close>

definition with_headers :: "'h mtsTransport \<Rightarrow> request \<Rightarrow> request" where
  "with_headers t req =
     req\<lparr>Header := Header_Add ''Accept'' ''application/json''
                      (Header_Add ''User-Agent'' (GetUserAgent (conf t)) (Header req))\<rparr>"

definition outbound :: "('h, 'y) lib_scheme \<Rightarrow> 'h mtsTransport \<Rightarrow> request \<Rightarrow> request" where
  "outbound lib t req =
     SetBasicAuth (GetAuthToken (Getenv lib) (conf t)) [] (with_headers t req)"

text \<open>The values of the \<^verbatim>\<open>Authorization\<close> header of a request.\<close>

definition authorization :: "request \<Rightarrow> string list option" where
  "authorization r = Header r ''Authorization''"

text \<open>The values of the \<^verbatim>\<open>Content-Type\<close> header of a request.\<close>

definition content_type :: "request \<Rightarrow> string list option" where
  "content_type r = Header r ''Content-Type''"

text \<open>The events of a trace before the first request handed to the wrapped transport.\<close>

fun before_sent :: "'h event list \<Rightarrow> 'h event list" where
  "before_sent [] = []"
| "before_sent (Sent r # tr) = []"
| "before_sent (e # tr) = e # before_sent tr"

section \<open>An example world\<close>

text \<open>
  A service that answers every request with status 200 and an empty JSON object,
  behind a transport whose token comes from the environment, with debug mode on and a
  user agent configured. The dumps
  print the method and the URL, or the body; the form encoder prints the member
  \<^verbatim>\<open>name\<close> and the JSON encoder the names of the members; the decoder of the example
  takes the body itself for the result.
\<close>

definition ex_service :: RoundTripper where
  "ex_service r = Inr \<lparr>StatusCode = 200, RespHeader = Map.empty, RespBody = ''{}''\<rparr>"

definition ex_lib :: "unit dlib" where
  "ex_lib =
     \<lparr>Getenv = (\<lambda>v. if v = ''MTS_AUTH_TOKEN'' then ''t'' else []),
      uuid_New = ''6ba7b810-9dad-11d1-80b4-00c04fd430c8'',
      DefaultTransport = ex_service,
      slog_Default = \<lparr>handler = NewTextHandler Stderr LevelInfo, withs = []\<rparr>,
      DumpRequestOut = (\<lambda>r. Inr (Method r @ '' '' @ URL r)),
      DumpResponse = (\<lambda>r. Inr (RespBody r)),
      Decode_ErrorResponse = (\<lambda>b. (\<lparr>Error = \<lparr>ErrorCode = 0, ErrorText = []\<rparr>\<rparr>,
                                     Some (LibError ''EOF''))),
      StatusText = (\<lambda>c. if c = 404 then ''Not Found''
                         else if c = 500 then ''Internal Server Error'' else []),
      NewRequest_error = (\<lambda>m u. None),
      Values_Encode = (\<lambda>vs. case vs ''name'' of Some [n] \<Rightarrow> ''name='' @ n | _ \<Rightarrow> []),
      Sprint_float64 = (\<lambda>w. []),
      Sprint_map = (\<lambda>m. []),
      json_isEmptyFloat = (\<lambda>w. w = 0),
      json_Encode = (\<lambda>d. case d of JNull \<Rightarrow> Inr ''null''
                           | JObject ms \<Rightarrow>
                               Inr (''{'' @ concat (map (\<lambda>m. fst m @ '';'') ms) @ ''}'')),
      url_Error_Error = (\<lambda>m u e. m @ '' '' @ u @ '': '' @ error_string e),
      Body_Close = (\<lambda>r. None)\<rparr>"

definition ex_conf :: "unit Config" where
  "ex_conf =
     \<lparr>Protocol = [], UserAgent = ''my-agent'', Host = [], APIVersion = [], Debug = True,
      AuthToken = [], Transport = None, LogHandler = None\<rparr>"

definition ex_transport :: "unit mtsTransport" where
  "ex_transport = GetTransport ex_lib ex_conf"

definition ex_not_found :: response where
  "ex_not_found = \<lparr>StatusCode = 404, RespHeader = Map.empty, RespBody = []\<rparr>"

text \<open>
  A response with status 500 whose body is an envelope with a string where the code
  should be a number, and the JSON decoder on it: it stores the text, leaves the code
  at zero, and returns an error for the code; on any other body it is the decoder of
  the example.
\<close>

definition ex_wrong_type :: response where
  \<open>ex_wrong_type =
     \<lparr>StatusCode = 500, RespHeader = Map.empty,
      RespBody = ''{"error":{"error_code":"x","error_text":"boom"}}''\<rparr>\<close>

definition ex_lib_wrong_type :: "unit dlib" where
  "ex_lib_wrong_type =
     ex_lib\<lparr>Decode_ErrorResponse :=
       (\<lambda>b. if b = RespBody ex_wrong_type
            then (\<lparr>Error = \<lparr>ErrorCode = 0, ErrorText = ''boom''\<rparr>\<rparr>,
                  Some (LibError ''json: cannot unmarshal string into Go struct field of type int''))
            else Decode_ErrorResponse ex_lib b)\<rparr>"

definition ex_client :: "unit client" where
  "ex_client =
     \<lparr>c_conf = ex_conf,
      c_logr = \<lparr>handler = NewTextHandler Stderr LevelDebug, withs = [Group ''gomts'']\<rparr>,
      httpClient = ex_transport\<lparr>logr :=
        \<lparr>handler = NewTextHandler Stderr LevelDebug,
         withs = [Group ''gomts'', Group ''transport'']\<rparr>\<rparr>\<rparr>"

definition ex_dec :: "string \<Rightarrow> string \<times> error option" where
  "ex_dec b = (b, None)"

text \<open>Bodies: a department, the employee of the integration test, a change of name.\<close>

definition ex_department :: DepartmentCreateRequest where
  "ex_department = \<lparr>DepartmentCreateRequest.Name = ''Engineering''\<rparr>"

definition ex_employee :: EmployeeCreateRequest where
  "ex_employee =
     \<lparr>EmployeeCreateRequest.Name = ''Bob Ross'',
      EmployeeCreateRequest.DepartmentID = ''dep_1'',
      EmployeeCreateRequest.DepartmentName = [],
      EmployeeCreateRequest.CustomEmployeeID = [],
      EmployeeCreateRequest.Title = ''Senior Artist'',
      EmployeeCreateRequest.HourlyRate = 0,
      EmployeeCreateRequest.PIN = ''1234'',
      EmployeeCreateRequest.CustomFields = Map.empty\<rparr>"

definition ex_update :: EmployeeUpdateRequest where
  "ex_update =
     \<lparr>EmployeeUpdateRequest.Name = Some ''Bob'',
      EmployeeUpdateRequest.DepartmentID = None,
      EmployeeUpdateRequest.DepartmentName = None,
      EmployeeUpdateRequest.CustomEmployeeID = None,
      EmployeeUpdateRequest.Title = Some [],
      EmployeeUpdateRequest.HourlyRate = None,
      EmployeeUpdateRequest.PIN = None,
      EmployeeUpdateRequest.CustomFields = Map.empty,
      EmployeeUpdateRequest.ConvertPrimaryDepartment = None\<rparr>"

definition ex_get_request :: request where
  "ex_get_request =
     \<lparr>Method = ''GET'', URL = ''https://api.mytimestation.com/v1.2/departments'',
      Header = [''Content-Type'' \<mapsto> [[]]], Body = None\<rparr>"

definition ex_request :: request where
  "ex_request =
     \<lparr>Method = ''GET'', URL = ''https://api.mytimestation.com/v1.2/departments'',
      Header = Map.empty, Body = None\<rparr>"


section \<open>Properties of the configuration\<close>

text \<open>
  C6. The resolved user agent should be the configured user agent when that is not
  empty, and the default otherwise, whatever the other fields hold. The code tests
  \<^verbatim>\<open>c.AuthToken\<close> instead of \<^verbatim>\<open>c.UserAgent\<close>: with no token configured, the configured
  user agent \<^verbatim>\<open>my-agent\<close> is dropped for the default, and with a token and no user
  agent configured the result is empty instead of the default. The getter of the
  protocol, beside it, tests its own field.
\<close>

theorem GetUserAgent_tests_AuthToken:
  "AuthToken ex_conf = [] \<and> UserAgent ex_conf = ''my-agent''
   \<and> GetUserAgent ex_conf = ''go.charbar.io/gomts''
   \<and> GetUserAgent (ex_conf\<lparr>AuthToken := ''t'', UserAgent := []\<rparr>) = []
   \<and> GetProtocol (ex_conf\<lparr>Protocol := ''http''\<rparr>) = ''http''"
  by (simp add: GetUserAgent_def GetProtocol_def ex_conf_def defaultUserAgent_def)

text \<open>
  C10. With a log handler configured, the logger is built from exactly that handler
  and the \<^verbatim>\<open>Debug\<close> flag changes nothing; with none, the logger is the text logger on
  standard error, at level debug when \<^verbatim>\<open>Debug\<close> is set and at level info otherwise.
\<close>

theorem GetLogger_handler:
  "(LogHandler c = Some h \<longrightarrow>
      GetLogger c = slog_New h \<and> GetLogger (c\<lparr>Debug := d\<rparr>) = GetLogger c)
   \<and> (LogHandler c = None \<longrightarrow>
      GetLogger c = slog_New (NewTextHandler Stderr (if Debug c then LevelDebug else LevelInfo)))"
  by (simp add: GetLogger_def)

theorem GetLogger_handler_witness:
  "GetLogger (ex_conf\<lparr>LogHandler := Some (UserHandler ())\<rparr>)
     = Some \<lparr>handler = UserHandler (), withs = []\<rparr>
   \<and> GetLogger (ex_conf\<lparr>LogHandler := Some (UserHandler ()), Debug := False\<rparr>)
     = Some \<lparr>handler = UserHandler (), withs = []\<rparr>
   \<and> GetLogger ex_conf = Some \<lparr>handler = NewTextHandler Stderr LevelDebug, withs = []\<rparr>
   \<and> GetLogger (ex_conf\<lparr>Debug := False\<rparr>)
     = Some \<lparr>handler = NewTextHandler Stderr LevelInfo, withs = []\<rparr>"
  using GetLogger_handler [of "ex_conf\<lparr>LogHandler := Some (UserHandler ())\<rparr>" "UserHandler ()" False]
    GetLogger_handler [of ex_conf "UserHandler ()" False]
    GetLogger_handler [of "ex_conf\<lparr>Debug := False\<rparr>" "UserHandler ()" False]
  by (simp add: ex_conf_def slog_New_def)

text \<open>
  C4. With no token configured and \<^verbatim>\<open>MTS_AUTH_TOKEN\<close> set, the resolved token is the
  value of the variable. With neither, \<^verbatim>\<open>RoundTrip\<close> returns the missing-token error
  and does nothing else: its trace is empty, so no request reaches the wrapped
  transport.
\<close>

theorem missing_token:
  "(AuthToken c = [] \<and> getenv authTokenEnvVar \<noteq> [] \<longrightarrow>
      GetAuthToken getenv c = getenv authTokenEnvVar)
   \<and> (AuthToken (conf t) = [] \<and> Getenv lib authTokenEnvVar = [] \<longrightarrow>
      RoundTrip lib t req = (Inl ErrMissingToken, [])
      \<and> sent_requests (snd (RoundTrip lib t req)) = [])"
  by (simp add: GetAuthToken_def RoundTrip_def sent_requests_def)

theorem missing_token_witness:
  "GetAuthToken (Getenv ex_lib) ex_conf = ''t''
   \<and> RoundTrip (ex_lib\<lparr>Getenv := (\<lambda>v. [])\<rparr>) ex_transport ex_request = (Inl ErrMissingToken, [])
   \<and> sent_requests (snd (RoundTrip (ex_lib\<lparr>Getenv := (\<lambda>v. [])\<rparr>) ex_transport ex_request)) = []"
proof -
  have h1: "AuthToken ex_conf = [] \<and> Getenv ex_lib authTokenEnvVar \<noteq> []"
    by (simp add: ex_conf_def ex_lib_def authTokenEnvVar_def)
  have h2: "AuthToken (conf ex_transport) = []
            \<and> Getenv (ex_lib\<lparr>Getenv := (\<lambda>v. [])\<rparr>) authTokenEnvVar = []"
    by (simp add: ex_conf_def ex_transport_def GetTransport_def)
  have h3: "Getenv ex_lib authTokenEnvVar = ''t''"
    by (simp add: ex_lib_def authTokenEnvVar_def)
  from missing_token [of ex_conf "Getenv ex_lib" ex_transport
      "ex_lib\<lparr>Getenv := (\<lambda>v. [])\<rparr>" ex_request] h1 h2 h3
  show ?thesis by (simp add: sent_requests_def)
qed

section \<open>Properties of the aggregate error\<close>

text \<open>\<^verbatim>\<open>Sweep\<close> returns no error rather than an empty list of errors.\<close>

lemma Sweep_never_empty_list: "fst (Sweep sw s) \<noteq> Some (ErrorListError [])"
proof -
  obtain errList evs s' where
    "sweep_loop (Departments_Delete (sweeper_c sw)) (sweeper_logr sw)
       ''deleted department'' ''department_id'' (departmentIDs sw)
       (sweep_loop (Employees_Delete (sweeper_c sw)) (sweeper_logr sw)
          ''deleted employee'' ''employee_id'' (employeeIDs sw) ([], [], s)) = (errList, evs, s')"
    using prod_cases3 by blast
  then show ?thesis
    by (cases errList) (simp_all add: Sweep_def)
qed

text \<open>
  C9. The rendering of a list of errors should contain the message of every element.
  \<^verbatim>\<open>ErrorList.Error\<close> returns inside its loop: for the two errors \<^verbatim>\<open>a\<close> and \<^verbatim>\<open>b\<close> it
  gives the first alone, without the prefix, and \<^verbatim>\<open>b\<close> is lost. The list of errors
  of the test helpers, written the same way but for the \<^verbatim>\<open>return\<close>, renders both.
\<close>

theorem ErrorList_Error_first_only:
  "ErrorList_Error [LibError ''a'', LibError ''b''] = '' a ;''
   \<and> errorList_Error [LibError ''a'', LibError ''b''] = ''errors: a; b;''"
  by (simp add: errorList_Error_def)

section \<open>Properties of the authenticating transport\<close>

text \<open>
  The trace of \<^verbatim>\<open>RoundTrip\<close> once the token is there: the dump of the request under
  debug mode, the request handed to the wrapped transport, and for a response its dump
  under debug mode and the error mapper for a status outside 200..299.
\<close>

lemma RoundTrip_sent:
  "GetAuthToken (Getenv lib) (conf t) \<noteq> [] \<Longrightarrow>
   sent_requests (snd (RoundTrip lib t req)) = [outbound lib t req]"
  by (auto simp: RoundTrip_def Let_def sent_requests_def outbound_def with_headers_def
      logRequest_def logResponse_def mapResponseToError_def split: sum.splits prod.splits)

lemma RoundTrip_dumped:
  "GetAuthToken (Getenv lib) (conf t) \<noteq> [] \<Longrightarrow> Debug (conf t) \<Longrightarrow>
   dumped_requests (snd (RoundTrip lib t req)) = [with_headers t req]"
  by (auto simp: RoundTrip_def Let_def dumped_requests_def outbound_def with_headers_def
      logRequest_def logResponse_def mapResponseToError_def split: sum.splits prod.splits)

lemma RoundTrip_trace:
  "GetAuthToken (Getenv lib) (conf t) \<noteq> [] \<Longrightarrow>
   snd (RoundTrip lib t req) =
     (if Debug (conf t) then logRequest lib t (with_headers t req) (uuid_New lib) else [])
     @ Sent (outbound lib t req)
     # (case getWrappedTransport lib t (outbound lib t req) of
          Inl err \<Rightarrow> []
        | Inr resp \<Rightarrow>
            (if Debug (conf t) then logResponse lib t resp (uuid_New lib) else [])
            @ (if StatusCode resp < 200 \<or> StatusCode resp > 299
               then [DecodedBody resp, ClosedBody resp] else []))"
  by (simp add: RoundTrip_def Let_def outbound_def with_headers_def mapResponseToError_def
      split: sum.splits)

lemma before_sent_append:
  "before_sent (xs @ Sent r # ys) = before_sent xs"
  by (induction xs rule: before_sent.induct) simp_all

lemma before_sent_logRequest:
  "before_sent (logRequest lib t r cid) = logRequest lib t r cid"
  by (simp add: logRequest_def split: sum.splits)

lemma RoundTrip_order:
  "GetAuthToken (Getenv lib) (conf t) \<noteq> [] \<Longrightarrow> Debug (conf t) \<Longrightarrow>
   dumped_requests (before_sent (snd (RoundTrip lib t req))) = [with_headers t req]"
  by (simp add: RoundTrip_trace before_sent_append)
     (simp add: logRequest_def dumped_requests_def split: sum.splits)

lemma RoundTrip_success:
  "GetAuthToken (Getenv lib) (conf t) \<noteq> [] \<Longrightarrow>
   getWrappedTransport lib t (outbound lib t req) = Inr resp \<Longrightarrow>
   200 \<le> StatusCode resp \<Longrightarrow> StatusCode resp \<le> 299 \<Longrightarrow>
   fst (RoundTrip lib t req) = Inr resp \<and> decoded_bodies (snd (RoundTrip lib t req)) = []"
  by (auto simp: RoundTrip_def Let_def outbound_def with_headers_def decoded_bodies_def
      logRequest_def logResponse_def split: sum.splits prod.splits)

lemma RoundTrip_failure:
  "GetAuthToken (Getenv lib) (conf t) \<noteq> [] \<Longrightarrow>
   getWrappedTransport lib t (outbound lib t req) = Inr resp \<Longrightarrow>
   StatusCode resp < 200 \<or> StatusCode resp > 299 \<Longrightarrow>
   fst (RoundTrip lib t req) = Inl (ServiceError (fst (mapResponseToError lib resp)))
   \<and> decoded_bodies (snd (RoundTrip lib t req)) = [resp]"
  by (auto simp: RoundTrip_def Let_def outbound_def with_headers_def decoded_bodies_def
      logRequest_def logResponse_def mapResponseToError_def split: sum.splits prod.splits)

lemma RoundTrip_transport_error:
  "GetAuthToken (Getenv lib) (conf t) \<noteq> [] \<Longrightarrow>
   getWrappedTransport lib t (outbound lib t req) = Inl err \<Longrightarrow>
   fst (RoundTrip lib t req) = Inl (RequestFailed err)"
  by (auto simp: RoundTrip_def Let_def outbound_def with_headers_def 
      logRequest_def logResponse_def split: sum.splits prod.splits)


lemma ex_token: "GetAuthToken (Getenv ex_lib) (conf ex_transport) = ''t''"
  by (simp add: GetAuthToken_def ex_lib_def ex_transport_def GetTransport_def ex_conf_def
      authTokenEnvVar_def)

lemma ex_debug: "Debug (conf ex_transport)"
  by (simp add: ex_transport_def GetTransport_def ex_conf_def)

lemma basicAuth_t: "basicAuth ''t'' [] = ''dDo=''"
  by (simp add: basicAuth_def base64_EncodeToString_def base64_digit_def base64_alphabet_def)

text \<open>
  C1, as the code has it. With a token and debug mode on, \<^verbatim>\<open>User-Agent\<close> and \<^verbatim>\<open>Accept\<close>
  are added before the dump of the request and the credentials after it: the dump,
  which comes before the request is handed to the wrapped transport, is given the
  request with the two headers added and its \<^verbatim>\<open>Authorization\<close> header as the caller
  left it; the wrapped transport is given that request with \<^verbatim>\<open>Authorization\<close> set to
  \<^verbatim>\<open>Basic\<close> and the base64 of the token and a colon.
\<close>

theorem dump_before_auth:
  assumes "GetAuthToken (Getenv lib) (conf t) \<noteq> []" and "Debug (conf t)"
  shows "dumped_requests (before_sent (snd (RoundTrip lib t req))) = [with_headers t req]
    \<and> dumped_requests (snd (RoundTrip lib t req)) = [with_headers t req]
    \<and> sent_requests (snd (RoundTrip lib t req))
        = [SetBasicAuth (GetAuthToken (Getenv lib) (conf t)) [] (with_headers t req)]
    \<and> Header (with_headers t req) ''User-Agent''
        = Some ((case Header req ''User-Agent'' of None \<Rightarrow> [] | Some vs \<Rightarrow> vs)
                @ [GetUserAgent (conf t)])
    \<and> Header (with_headers t req) ''Accept''
        = Some ((case Header req ''Accept'' of None \<Rightarrow> [] | Some vs \<Rightarrow> vs)
                @ [''application/json''])
    \<and> authorization (with_headers t req) = authorization req
    \<and> authorization (SetBasicAuth (GetAuthToken (Getenv lib) (conf t)) [] (with_headers t req))
        = Some [''Basic '' @ basicAuth (GetAuthToken (Getenv lib) (conf t)) []]"
proof -
  have 1: "dumped_requests (before_sent (snd (RoundTrip lib t req))) = [with_headers t req]"
    using assms by (rule RoundTrip_order)
  have 2: "dumped_requests (snd (RoundTrip lib t req)) = [with_headers t req]"
    using assms by (rule RoundTrip_dumped)
  have 3: "sent_requests (snd (RoundTrip lib t req))
        = [SetBasicAuth (GetAuthToken (Getenv lib) (conf t)) [] (with_headers t req)]"
    using assms(1) by (simp add: RoundTrip_sent outbound_def)
  have 4: "Header (with_headers t req) ''User-Agent''
        = Some ((case Header req ''User-Agent'' of None \<Rightarrow> [] | Some vs \<Rightarrow> vs)
                @ [GetUserAgent (conf t)])"
    by (simp add: with_headers_def Header_Add_def)
  have 5: "Header (with_headers t req) ''Accept''
        = Some ((case Header req ''Accept'' of None \<Rightarrow> [] | Some vs \<Rightarrow> vs)
                @ [''application/json''])"
    by (simp add: with_headers_def Header_Add_def)
  have 6: "authorization (with_headers t req) = authorization req"
    by (simp add: authorization_def with_headers_def Header_Add_def)
  have 7: "authorization (SetBasicAuth (GetAuthToken (Getenv lib) (conf t)) [] (with_headers t req))
        = Some [''Basic '' @ basicAuth (GetAuthToken (Getenv lib) (conf t)) []]"
    by (simp add: authorization_def SetBasicAuth_def Header_Set_def)
  from 1 2 3 4 5 6 7 show ?thesis by blast
qed

theorem dump_before_auth_witness:
  "map authorization (dumped_requests (before_sent (snd (RoundTrip ex_lib ex_transport ex_request))))
     = [None]
   \<and> map authorization (sent_requests (snd (RoundTrip ex_lib ex_transport ex_request)))
     = [Some [''Basic dDo='']]"
proof -
  have h1: "GetAuthToken (Getenv ex_lib) (conf ex_transport) \<noteq> []"
    by (simp add: ex_token)
  have h2: "authorization ex_request = None"
    by (simp add: authorization_def ex_request_def)
  from dump_before_auth [OF h1 ex_debug, of ex_request] h2
  show ?thesis by (simp add: ex_token basicAuth_t)
qed

text \<open>
  C1, as stated, fails: in the example world the request handed to the dump has no
  \<^verbatim>\<open>Authorization\<close> header, and the request handed to the wrapped transport has the
  credentials of the token \<^verbatim>\<open>t\<close>.
\<close>

theorem logged_request_differs_from_sent:
  "Debug (conf ex_transport)
   \<and> map authorization (dumped_requests (snd (RoundTrip ex_lib ex_transport ex_request)))
       = [None]
   \<and> map authorization (sent_requests (snd (RoundTrip ex_lib ex_transport ex_request)))
       = [Some [''Basic dDo='']]
   \<and> dumped_requests (snd (RoundTrip ex_lib ex_transport ex_request))
       \<noteq> sent_requests (snd (RoundTrip ex_lib ex_transport ex_request))"
proof -
  have h1: "GetAuthToken (Getenv ex_lib) (conf ex_transport) \<noteq> []"
    by (simp add: ex_token)
  have d: "map authorization (dumped_requests (snd (RoundTrip ex_lib ex_transport ex_request)))
       = [None]"
    by (simp add: RoundTrip_dumped [OF h1 ex_debug] authorization_def with_headers_def
        Header_Add_def ex_request_def)
  have s: "map authorization (sent_requests (snd (RoundTrip ex_lib ex_transport ex_request)))
       = [Some [''Basic dDo='']]"
    by (simp add: RoundTrip_sent [OF h1] outbound_def authorization_def SetBasicAuth_def
        Header_Set_def ex_token basicAuth_t)
  from d s have "dumped_requests (snd (RoundTrip ex_lib ex_transport ex_request))
       \<noteq> sent_requests (snd (RoundTrip ex_lib ex_transport ex_request))"
    by auto
  with d s ex_debug show ?thesis by blast
qed

text \<open>
  C2. The two debug-level entries of a request should be made on a logger that carries
  the correlation identifier. \<^verbatim>\<open>logRequest\<close> and \<^verbatim>\<open>logResponse\<close> build that logger
  (\<^verbatim>\<open>logr\<close>) and use it for the error entry of a failed dump only; the debug entries
  are made on \<^verbatim>\<open>t.logr\<close>, which does not carry it. In the example world neither debug
  entry is tagged; with a dump that fails, the error entry is tagged and the debug
  entry is not.
\<close>

theorem debug_entries_not_tagged:
  "map msg (debug_calls (snd (RoundTrip ex_lib ex_transport ex_request)))
      = [''outbound request'', ''received response'']
   \<and> map (tagged (uuid_New ex_lib)) (debug_calls (snd (RoundTrip ex_lib ex_transport ex_request)))
      = [False, False]
   \<and> map level (log_calls (logRequest (ex_lib\<lparr>DumpRequestOut := (\<lambda>r. Inl (LibError ''x''))\<rparr>)
        ex_transport ex_request (uuid_New ex_lib))) = [LevelError, LevelDebug]
   \<and> map (tagged (uuid_New ex_lib))
        (log_calls (logRequest (ex_lib\<lparr>DumpRequestOut := (\<lambda>r. Inl (LibError ''x''))\<rparr>)
        ex_transport ex_request (uuid_New ex_lib))) = [True, False]"
proof -
  have h1: "GetAuthToken (Getenv ex_lib) (conf ex_transport) \<noteq> []"
    by (simp add: ex_token)
  have w: "getWrappedTransport ex_lib ex_transport r
     = Inr \<lparr>StatusCode = 200, RespHeader = Map.empty, RespBody = ''{}''\<rparr>" for r
    by (simp add: getWrappedTransport_def ex_transport_def GetTransport_def ex_conf_def
        ex_lib_def ex_service_def)
  have dq: "DumpRequestOut ex_lib r = Inr (Method r @ '' '' @ URL r)" for r
    by (simp add: ex_lib_def)
  have dr: "DumpResponse ex_lib r = Inr (RespBody r)" for r
    by (simp add: ex_lib_def)
  have lg: "logr ex_transport = \<lparr>handler = NewTextHandler Stderr LevelInfo, withs = []\<rparr>"
    by (simp add: ex_transport_def GetTransport_def ex_lib_def)
  have tr: "log_calls (snd (RoundTrip ex_lib ex_transport ex_request)) =
     [\<lparr>logger = logr ex_transport, level = LevelDebug, msg = ''outbound request'',
       attrs = [(''request'', StringValue (Method (with_headers ex_transport ex_request) @ '' ''
                   @ URL (with_headers ex_transport ex_request)))]\<rparr>,
      \<lparr>logger = logr ex_transport, level = LevelDebug, msg = ''received response'',
       attrs = [(''r'', StringValue ''{}'')]\<rparr>]"
    by (simp add: RoundTrip_trace [OF h1] ex_debug w logRequest_def logResponse_def dq dr
        log_calls_def)
  have a: "map msg (debug_calls (snd (RoundTrip ex_lib ex_transport ex_request)))
      = [''outbound request'', ''received response'']"
    by (simp add: debug_calls_def tr)
  have b: "map (tagged (uuid_New ex_lib)) (debug_calls (snd (RoundTrip ex_lib ex_transport ex_request)))
      = [False, False]"
    by (simp add: debug_calls_def tr tagged_def lg)
  have c: "map level (log_calls (logRequest (ex_lib\<lparr>DumpRequestOut := (\<lambda>r. Inl (LibError ''x''))\<rparr>)
        ex_transport ex_request (uuid_New ex_lib))) = [LevelError, LevelDebug]"
    by (simp add: logRequest_def log_calls_def)
  have d: "map (tagged (uuid_New ex_lib))
        (log_calls (logRequest (ex_lib\<lparr>DumpRequestOut := (\<lambda>r. Inl (LibError ''x''))\<rparr>)
        ex_transport ex_request (uuid_New ex_lib))) = [True, False]"
    by (simp add: logRequest_def log_calls_def tagged_def With_def lg)
  from a b c d show ?thesis by blast
qed


lemma ex_newClient: "newClient ex_lib ex_conf = Some ex_client"
  by (simp add: newClient_def GetLogger_def slog_New_def ex_conf_def ex_client_def
      WithGroup_def GetTransport_def ex_transport_def Let_def)

lemma ex_outbound_ok:
  "getWrappedTransport ex_lib ex_transport r
     = Inr \<lparr>StatusCode = 200, RespHeader = Map.empty, RespBody = ''{}''\<rparr>"
  by (simp add: getWrappedTransport_def ex_transport_def GetTransport_def ex_conf_def
      ex_lib_def ex_service_def)

text \<open>
  C3, as the code has it. For a response with a status outside 200..299, whatever the
  decoder returns beside the value it has stored (its error is dropped): the code of
  the mapped error is the stored code when that is not zero, and the status code
  otherwise; its text is the stored text when that is not empty, and otherwise the
  reason phrase of the code the mapped error has. So an envelope with a nonzero code
  and a nonempty text is returned exactly, a body of which nothing was stored (an empty
  one, or one that is not JSON) gives the status code and its reason phrase, and
  \<^verbatim>\<open>RoundTrip\<close> returns the mapped error, as an error.
\<close>

theorem mapResponseToError_fields:
  assumes "StatusCode resp < 200 \<or> StatusCode resp > 299"
    and "Decode_ErrorResponse lib (RespBody resp)
           = (\<lparr>Error = \<lparr>ErrorCode = code, ErrorText = text\<rparr>\<rparr>, derr)"
  shows "ErrorCode (fst (mapResponseToError lib resp))
           = (if code = 0 then StatusCode resp else code)
    \<and> ErrorText (fst (mapResponseToError lib resp))
           = (if text = []
              then StatusText lib (ErrorCode (fst (mapResponseToError lib resp)))
              else text)
    \<and> (code \<noteq> 0 \<and> text \<noteq> [] \<longrightarrow>
           fst (mapResponseToError lib resp) = \<lparr>ErrorCode = code, ErrorText = text\<rparr>)
    \<and> (code = 0 \<and> text = [] \<longrightarrow>
           fst (mapResponseToError lib resp)
             = \<lparr>ErrorCode = StatusCode resp, ErrorText = StatusText lib (StatusCode resp)\<rparr>)
    \<and> (GetAuthToken (Getenv lib) (conf t) \<noteq> []
          \<and> getWrappedTransport lib t (outbound lib t req) = Inr resp \<longrightarrow>
            fst (RoundTrip lib t req) = Inl (ServiceError (fst (mapResponseToError lib resp))))"
  using assms RoundTrip_failure [of lib t req resp]
  by (simp add: mapResponseToError_def Let_def)

theorem mapResponseToError_fields_witness:
  "fst (mapResponseToError
         (ex_lib\<lparr>Decode_ErrorResponse :=
            (\<lambda>b. (\<lparr>Error = \<lparr>ErrorCode = 17, ErrorText = ''No such department''\<rparr>\<rparr>, None))\<rparr>)
         ex_not_found)
     = \<lparr>ErrorCode = 17, ErrorText = ''No such department''\<rparr>
   \<and> fst (mapResponseToError ex_lib ex_not_found)
     = \<lparr>ErrorCode = 404, ErrorText = ''Not Found''\<rparr>
   \<and> fst (RoundTrip (ex_lib\<lparr>DefaultTransport := (\<lambda>r. Inr ex_not_found)\<rparr>) ex_transport ex_request)
     = Inl (ServiceError \<lparr>ErrorCode = 404, ErrorText = ''Not Found''\<rparr>)
   \<and> ErrorCode (fst (mapResponseToError ex_lib_wrong_type ex_wrong_type)) = 500
   \<and> ErrorText (fst (mapResponseToError ex_lib_wrong_type ex_wrong_type)) = ''boom''"
proof -
  let ?env = "ex_lib\<lparr>Decode_ErrorResponse :=
            (\<lambda>b. (\<lparr>Error = \<lparr>ErrorCode = 17, ErrorText = ''No such department''\<rparr>\<rparr>, None))\<rparr>"
  let ?nf = "ex_lib\<lparr>DefaultTransport := (\<lambda>r. Inr ex_not_found)\<rparr>"
  have st: "StatusCode ex_not_found < 200 \<or> StatusCode ex_not_found > 299"
    by (simp add: ex_not_found_def)
  have st5: "StatusCode ex_wrong_type < 200 \<or> StatusCode ex_wrong_type > 299"
    by (simp add: ex_wrong_type_def)
  have d1: "Decode_ErrorResponse ?env (RespBody ex_not_found)
      = (\<lparr>Error = \<lparr>ErrorCode = 17, ErrorText = ''No such department''\<rparr>\<rparr>, None)"
    by simp
  have d2: "Decode_ErrorResponse ex_lib (RespBody ex_not_found)
      = (\<lparr>Error = \<lparr>ErrorCode = 0, ErrorText = []\<rparr>\<rparr>, Some (LibError ''EOF''))"
    by (simp add: ex_lib_def)
  have d3: "Decode_ErrorResponse ?nf (RespBody ex_not_found)
      = (\<lparr>Error = \<lparr>ErrorCode = 0, ErrorText = []\<rparr>\<rparr>, Some (LibError ''EOF''))"
    by (simp add: ex_lib_def)
  have d5: "Decode_ErrorResponse ex_lib_wrong_type (RespBody ex_wrong_type)
      = (\<lparr>Error = \<lparr>ErrorCode = 0, ErrorText = ''boom''\<rparr>\<rparr>,
         Some (LibError ''json: cannot unmarshal string into Go struct field of type int''))"
    by (simp add: ex_lib_wrong_type_def)
  have tok: "GetAuthToken (Getenv ?nf) (conf ex_transport) \<noteq> []"
    using ex_token by (simp add: ex_lib_def)
  have w: "getWrappedTransport ?nf ex_transport (outbound ?nf ex_transport ex_request)
      = Inr ex_not_found"
    by (simp add: getWrappedTransport_def ex_transport_def GetTransport_def ex_conf_def)
  have s4: "StatusText ex_lib 404 = ''Not Found''"
    by (simp add: ex_lib_def)
  have c: "StatusCode ex_not_found = 404"
    by (simp add: ex_not_found_def)
  have c5: "StatusCode ex_wrong_type = 500"
    by (simp add: ex_wrong_type_def)
  from mapResponseToError_fields [OF st d1, of ex_transport ex_request]
  have r1: "fst (mapResponseToError ?env ex_not_found)
     = \<lparr>ErrorCode = 17, ErrorText = ''No such department''\<rparr>" by simp
  from mapResponseToError_fields [OF st d2, of ex_transport ex_request]
  have r2: "fst (mapResponseToError ex_lib ex_not_found)
     = \<lparr>ErrorCode = 404, ErrorText = ''Not Found''\<rparr>" by (simp add: s4 c)
  from mapResponseToError_fields [OF st d3, of ex_transport ex_request] tok w
  have r3: "fst (RoundTrip ?nf ex_transport ex_request)
     = Inl (ServiceError \<lparr>ErrorCode = 404, ErrorText = ''Not Found''\<rparr>)"
    by (simp add: s4 c)
  from mapResponseToError_fields [OF st5 d5, of ex_transport ex_request]
  have r5: "ErrorCode (fst (mapResponseToError ex_lib_wrong_type ex_wrong_type)) = 500
     \<and> ErrorText (fst (mapResponseToError ex_lib_wrong_type ex_wrong_type)) = ''boom''"
    by (simp add: c5)
  from r1 r2 r3 r5 show ?thesis by blast
qed

text \<open>
  C3, as stated, fails for a body that is malformed for the envelope but of which the
  decoder has stored a part. In the example the decoder fails on the code, which is a
  string, after it has stored the text: the mapped error has the status code 500 and
  the stored text, not the reason phrase of 500.
\<close>

theorem malformed_body_keeps_stored_text:
  "(StatusCode ex_wrong_type < 200 \<or> StatusCode ex_wrong_type > 299)
   \<and> snd (Decode_ErrorResponse ex_lib_wrong_type (RespBody ex_wrong_type)) \<noteq> None
   \<and> fst (mapResponseToError ex_lib_wrong_type ex_wrong_type)
       = \<lparr>ErrorCode = 500, ErrorText = ''boom''\<rparr>
   \<and> StatusText ex_lib_wrong_type (StatusCode ex_wrong_type) = ''Internal Server Error''
   \<and> ErrorText (fst (mapResponseToError ex_lib_wrong_type ex_wrong_type))
       \<noteq> StatusText ex_lib_wrong_type (StatusCode ex_wrong_type)"
  by (simp add: mapResponseToError_def ex_lib_wrong_type_def ex_wrong_type_def ex_lib_def)

section \<open>Properties of the dispatcher\<close>

lemma httpDo_success:
  assumes "fst (RoundTrip lib (httpClient c) req) = Inr resp"
    and "newHTTPRequest lib method (GetBaseURL (c_conf c) @ path) body = Inr req"
  shows "fst (httpDo lib dec c method path body)
           = (Some (fst (dec (RespBody resp))), snd (dec (RespBody resp)))
         \<and> decoded_bodies (snd (httpDo lib dec c method path body))
           = decoded_bodies (snd (RoundTrip lib (httpClient c) req)) @ [resp]"
  using assms
  by (auto simp: httpDo_def Client_Do_def mapResponseBody_def Let_def split_beta
      decoded_bodies_def split: option.splits)

text \<open>
  C8. When the wrapped transport returns a response with a status in 200..299,
  \<^verbatim>\<open>RoundTrip\<close> returns that response as it is and no body is run through the decoder
  of the error mapper; the dispatcher then decodes the body into the result and
  returns what the decoder gives. A status outside 200..299 gives the mapped service
  error, and a service error comes from such a status only.
\<close>

theorem success_not_mapped:
  assumes "GetAuthToken (Getenv lib) (conf t) \<noteq> []"
    and "getWrappedTransport lib t (outbound lib t req) = Inr resp"
  shows "(200 \<le> StatusCode resp \<and> StatusCode resp \<le> 299 \<longrightarrow>
            fst (RoundTrip lib t req) = Inr resp
            \<and> decoded_bodies (snd (RoundTrip lib t req)) = []
            \<and> (httpClient c = t
                 \<and> newHTTPRequest lib method (GetBaseURL (c_conf c) @ path) body = Inr req \<longrightarrow>
                 fst (httpDo lib dec c method path body)
                   = (Some (fst (dec (RespBody resp))), snd (dec (RespBody resp)))
                 \<and> decoded_bodies (snd (httpDo lib dec c method path body)) = [resp]))
    \<and> (StatusCode resp < 200 \<or> StatusCode resp > 299 \<longrightarrow>
            fst (RoundTrip lib t req) = Inl (ServiceError (fst (mapResponseToError lib resp))))
    \<and> (\<forall>e. fst (RoundTrip lib t req) = Inl (ServiceError e) \<longrightarrow>
            StatusCode resp < 200 \<or> StatusCode resp > 299)"
proof -
  have ok: "fst (RoundTrip lib t req) = Inr resp
            \<and> decoded_bodies (snd (RoundTrip lib t req)) = []"
    if "200 \<le> StatusCode resp" "StatusCode resp \<le> 299"
    using RoundTrip_success [OF assms that] .
  have bad: "fst (RoundTrip lib t req) = Inl (ServiceError (fst (mapResponseToError lib resp)))"
    if "StatusCode resp < 200 \<or> StatusCode resp > 299"
    using RoundTrip_failure [OF assms that] by simp
  have do: "fst (httpDo lib dec c method path body)
                   = (Some (fst (dec (RespBody resp))), snd (dec (RespBody resp)))
            \<and> decoded_bodies (snd (httpDo lib dec c method path body)) = [resp]"
    if "200 \<le> StatusCode resp" "StatusCode resp \<le> 299" "httpClient c = t"
      "newHTTPRequest lib method (GetBaseURL (c_conf c) @ path) body = Inr req"
    using httpDo_success [of lib c req resp "method" "path" body dec] ok that by simp
  have only: "StatusCode resp < 200 \<or> StatusCode resp > 299"
    if "fst (RoundTrip lib t req) = Inl (ServiceError e)" for e
  proof (rule ccontr)
    assume "\<not> (StatusCode resp < 200 \<or> StatusCode resp > 299)"
    then have "fst (RoundTrip lib t req) = Inr resp" using ok by simp
    with that show False by simp
  qed
  from ok bad do only show ?thesis by blast
qed


lemma ex_client_token: "GetAuthToken (Getenv ex_lib) (conf (httpClient ex_client)) = ''t''"
  by (simp add: GetAuthToken_def ex_lib_def ex_client_def ex_transport_def GetTransport_def
      ex_conf_def authTokenEnvVar_def)

lemma ex_client_ok:
  "getWrappedTransport ex_lib (httpClient ex_client) r
     = Inr \<lparr>StatusCode = 200, RespHeader = Map.empty, RespBody = ''{}''\<rparr>"
  by (simp add: getWrappedTransport_def ex_client_def ex_transport_def GetTransport_def
      ex_conf_def ex_lib_def ex_service_def)

lemma ex_base_url: "GetBaseURL (c_conf ex_client) = ''https://api.mytimestation.com/v1.2''"
  by (simp add: GetBaseURL_def GetProtocol_def GetHost_def GetAPIVersion_def ex_client_def
      ex_conf_def defaultProtocol_def defaultHost_def defaultAPIVersion_def)

lemma ex_newHTTPRequest:
  "newHTTPRequest ex_lib ''GET'' ''https://api.mytimestation.com/v1.2/departments'' None
     = Inr ex_get_request"
  by (simp add: newHTTPRequest_def http_NewRequest_def ex_lib_def Header_Add_def
      ex_get_request_def)

theorem success_not_mapped_witness:
  "fst (RoundTrip ex_lib ex_transport ex_request)
     = Inr \<lparr>StatusCode = 200, RespHeader = Map.empty, RespBody = ''{}''\<rparr>
   \<and> decoded_bodies (snd (RoundTrip ex_lib ex_transport ex_request)) = []
   \<and> fst (httpDo ex_lib ex_dec ex_client ''GET'' ''/departments'' None) = (Some ''{}'', None)
   \<and> fst (RoundTrip (ex_lib\<lparr>DefaultTransport := (\<lambda>r. Inr ex_not_found)\<rparr>) ex_transport
            ex_request)
     = Inl (ServiceError \<lparr>ErrorCode = 404, ErrorText = ''Not Found''\<rparr>)"
proof -
  let ?ok = "\<lparr>StatusCode = 200, RespHeader = Map.empty, RespBody = ''{}''\<rparr>"
  let ?nf = "ex_lib\<lparr>DefaultTransport := (\<lambda>r. Inr ex_not_found)\<rparr>"
  have tok: "GetAuthToken (Getenv ex_lib) (conf ex_transport) \<noteq> []"
    by (simp add: ex_token)
  have tok2: "GetAuthToken (Getenv ex_lib) (conf (httpClient ex_client)) \<noteq> []"
    by (simp add: ex_client_token)
  have tok3: "GetAuthToken (Getenv ?nf) (conf ex_transport) \<noteq> []"
    using ex_token by (simp add: ex_lib_def)
  have w3: "getWrappedTransport ?nf ex_transport (outbound ?nf ex_transport ex_request)
      = Inr ex_not_found"
    by (simp add: getWrappedTransport_def ex_transport_def GetTransport_def ex_conf_def)
  have rq: "newHTTPRequest ex_lib ''GET'' (GetBaseURL (c_conf ex_client) @ ''/departments'') None
      = Inr ex_get_request"
    using ex_newHTTPRequest by (simp add: ex_base_url)
  have st: "200 \<le> StatusCode ?ok \<and> StatusCode ?ok \<le> 299" by simp
  have nf: "StatusCode ex_not_found < 200 \<or> StatusCode ex_not_found > 299"
    by (simp add: ex_not_found_def)
  have m: "fst (mapResponseToError ?nf ex_not_found)
      = \<lparr>ErrorCode = 404, ErrorText = ''Not Found''\<rparr>"
    by (simp add: mapResponseToError_def ex_lib_def ex_not_found_def)
  from success_not_mapped [OF tok ex_outbound_ok, of ex_request ex_client "[]" "[]" None ex_dec] st
  have r1: "fst (RoundTrip ex_lib ex_transport ex_request) = Inr ?ok
     \<and> decoded_bodies (snd (RoundTrip ex_lib ex_transport ex_request)) = []"
    by blast
  from success_not_mapped [OF tok2 ex_client_ok, of ex_get_request ex_client "''GET''"
      "''/departments''" None ex_dec] st rq
  have r2: "fst (httpDo ex_lib ex_dec ex_client ''GET'' ''/departments'' None) = (Some ''{}'', None)"
    by (simp add: ex_dec_def)
  from success_not_mapped [OF tok3 w3, of ex_client "[]" "[]" None ex_dec] nf m
  have r3: "fst (RoundTrip ?nf ex_transport ex_request)
     = Inl (ServiceError \<lparr>ErrorCode = 404, ErrorText = ''Not Found''\<rparr>)"
    by simp
  from r1 r2 r3 show ?thesis by blast
qed

lemma httpDo_sent:
  "sent_requests (snd (httpDo lib dec c method path body)) =
     (case newHTTPRequest lib method (GetBaseURL (c_conf c) @ path) body of
        Inl err \<Rightarrow> []
      | Inr req \<Rightarrow> sent_requests (snd (RoundTrip lib (httpClient c) req)))"
  by (auto simp: httpDo_def Client_Do_def mapResponseBody_def Let_def split_beta
      sent_requests_def split: sum.splits option.splits)

lemma RoundTrip_sent_cases:
  "sent_requests (snd (RoundTrip lib t req)) =
     (if GetAuthToken (Getenv lib) (conf t) = [] then [] else [outbound lib t req])"
  by (simp add: RoundTrip_sent) (simp add: RoundTrip_def sent_requests_def)

lemma newHTTPRequest_None:
  "newHTTPRequest lib method reqURL None = Inr req \<Longrightarrow>
   content_type req = Some [[]] \<and> Body req = None"
  by (auto simp: newHTTPRequest_def http_NewRequest_def content_type_def Header_Add_def
      split: option.splits sum.splits)

lemma outbound_keeps:
  "content_type (outbound lib t req) = content_type req \<and> Body (outbound lib t req) = Body req"
  by (simp add: outbound_def with_headers_def SetBasicAuth_def Header_Set_def Header_Add_def
      content_type_def)

lemma httpDo_None_sent:
  "r \<in> set (sent_requests (snd (httpDo lib dec c method path None))) \<Longrightarrow>
   content_type r = Some [[]] \<and> Body r = None"
proof (cases "newHTTPRequest lib method (GetBaseURL (c_conf c) @ path) None")
  case (Inl err)
  assume "r \<in> set (sent_requests (snd (httpDo lib dec c method path None)))"
  with Inl show ?thesis by (simp add: httpDo_sent)
next
  case (Inr req)
  assume "r \<in> set (sent_requests (snd (httpDo lib dec c method path None)))"
  with Inr have "r = outbound lib (httpClient c) req"
    by (simp add: httpDo_sent RoundTrip_sent_cases split: if_splits)
  with newHTTPRequest_None [OF Inr] show ?thesis
    by (simp add: outbound_keeps)
qed

text \<open>
  C5, as the code has it. A request built without a body has no payload, and its
  \<^verbatim>\<open>Content-Type\<close> header is there with the empty string as its one value; so has
  every request that \<^verbatim>\<open>httpGet\<close> and \<^verbatim>\<open>httpDelete\<close> hand to the wrapped transport.
\<close>

theorem no_body_empty_content_type:
  "(newHTTPRequest lib method reqURL None = Inr req \<longrightarrow>
      content_type req = Some [[]] \<and> Body req = None)
   \<and> (\<forall>r \<in> set (sent_requests (snd (httpGet lib dec c path))).
        content_type r = Some [[]] \<and> Body r = None)
   \<and> (\<forall>r \<in> set (sent_requests (snd (httpDelete lib dec c path))).
        content_type r = Some [[]] \<and> Body r = None)"
  using newHTTPRequest_None [of lib "method" "reqURL" req]
  by (auto simp: httpGet_def httpDelete_def dest: httpDo_None_sent)

lemma ex_httpGet_sent:
  "sent_requests (snd (httpGet ex_lib ex_dec ex_client ''/departments''))
     = [outbound ex_lib (httpClient ex_client) ex_get_request]"
  using ex_newHTTPRequest
  by (simp add: httpGet_def httpDo_sent ex_base_url RoundTrip_sent_cases ex_client_token)

theorem no_body_empty_content_type_witness:
  "newHTTPRequest ex_lib ''GET'' ''https://api.mytimestation.com/v1.2/departments'' None
     = Inr ex_get_request
   \<and> Header ex_get_request ''Content-Type'' = Some [[]] \<and> Body ex_get_request = None
   \<and> map content_type (sent_requests (snd (httpGet ex_lib ex_dec ex_client ''/departments'')))
       = [Some [[]]]
   \<and> map Body (sent_requests (snd (httpGet ex_lib ex_dec ex_client ''/departments'')))
       = [None]"
  using no_body_empty_content_type [of ex_lib "''GET''"
      "''https://api.mytimestation.com/v1.2/departments''" ex_get_request ex_dec ex_client
      "''/departments''"]
    ex_newHTTPRequest ex_httpGet_sent
  by (simp add: content_type_def)

text \<open>
  C5, as stated, fails: the request built for a \<^verbatim>\<open>GET\<close> in the example world, and the
  one \<^verbatim>\<open>httpGet\<close> sends, carry a \<^verbatim>\<open>Content-Type\<close> header.
\<close>

theorem no_body_carries_content_type:
  "newHTTPRequest ex_lib ''GET'' ''https://api.mytimestation.com/v1.2/departments'' None
     = Inr ex_get_request
   \<and> content_type ex_get_request = Some [[]]
   \<and> content_type ex_get_request \<noteq> None
   \<and> map content_type (sent_requests (snd (httpGet ex_lib ex_dec ex_client ''/departments'')))
       = [Some [[]]]"
  using ex_newHTTPRequest ex_httpGet_sent
  by (simp add: content_type_def outbound_keeps [unfolded content_type_def] ex_get_request_def)

section \<open>Properties of the encoding of a body\<close>

text \<open>
  What the form encoder stores under a key: the values of the fields kept under that
  name, after what was there.
\<close>

lemma query_Values_DepartmentCreate:
  "query_Values lib (DepartmentCreate (Some r))
     = Inr [''name'' \<mapsto> [DepartmentCreateRequest.Name r]]"
  by (simp add: query_Values_def fields_DepartmentCreateRequest_def Tag_def tag_skip_def
      tag_key_def Values_Add_def)

lemma reflectValue_lookup:
  "reflectValue lib vs fs k =
     (let add = map (\<lambda>sf. valueString lib (field_val sf))
                  (filter (\<lambda>sf. \<not> tag_skip (url_tag sf)
                      \<and> \<not> (snd (tag_key (url_tag sf) (field_name sf)) \<and> isEmptyValue (field_val sf))
                      \<and> fst (tag_key (url_tag sf) (field_name sf)) = k) fs)
      in if add = [] then vs k
         else Some ((case vs k of None \<Rightarrow> [] | Some xs \<Rightarrow> xs) @ add))"
  by (induction fs arbitrary: vs) (auto simp: Let_def Values_Add_def split: option.splits)

lemma query_Values_EmployeeCreate:
  assumes "query_Values lib (EmployeeCreate (Some r)) = Inr values"
  shows "values ''name'' = Some [EmployeeCreateRequest.Name r]"
    and "values ''department_id'' =
          (if EmployeeCreateRequest.DepartmentID r = [] then None
           else Some [EmployeeCreateRequest.DepartmentID r])"
    and "values ''department_name'' =
          (if EmployeeCreateRequest.DepartmentName r = [] then None
           else Some [EmployeeCreateRequest.DepartmentName r])"
    and "values ''custom_employee_id'' =
          (if EmployeeCreateRequest.CustomEmployeeID r = [] then None
           else Some [EmployeeCreateRequest.CustomEmployeeID r])"
    and "values ''title'' =
          (if EmployeeCreateRequest.Title r = [] then None
           else Some [EmployeeCreateRequest.Title r])"
    and "values ''hourly_rate'' =
          (if EmployeeCreateRequest.HourlyRate r = 0
              \<or> EmployeeCreateRequest.HourlyRate r = 0x8000000000000000 then None
           else Some [Sprint_float64 lib (EmployeeCreateRequest.HourlyRate r)])"
    and "values ''pin'' =
          (if EmployeeCreateRequest.PIN r = [] then None
           else Some [EmployeeCreateRequest.PIN r])"
    and "values ''custom_fields'' =
          (if EmployeeCreateRequest.CustomFields r = Map.empty then None
           else Some [Sprint_map lib (EmployeeCreateRequest.CustomFields r)])"
    and "dom values \<subseteq> {''name'', ''department_id'', ''department_name'',
           ''custom_employee_id'', ''title'', ''hourly_rate'', ''pin'', ''custom_fields''}"
proof -
  have v: "values = reflectValue lib Map.empty (fields_EmployeeCreateRequest r)"
    using assms by (simp add: query_Values_def)
  show "values ''name'' = Some [EmployeeCreateRequest.Name r]"
    unfolding v reflectValue_lookup
    by (simp add: fields_EmployeeCreateRequest_def Tag_def tag_skip_def tag_key_def
        isEmptyValue_def)
  show "values ''department_id'' =
          (if EmployeeCreateRequest.DepartmentID r = [] then None
           else Some [EmployeeCreateRequest.DepartmentID r])"
    unfolding v reflectValue_lookup
    by (simp add: fields_EmployeeCreateRequest_def Tag_def tag_skip_def tag_key_def
        isEmptyValue_def)
  show "values ''department_name'' =
          (if EmployeeCreateRequest.DepartmentName r = [] then None
           else Some [EmployeeCreateRequest.DepartmentName r])"
    unfolding v reflectValue_lookup
    by (simp add: fields_EmployeeCreateRequest_def Tag_def tag_skip_def tag_key_def
        isEmptyValue_def)
  show "values ''custom_employee_id'' =
          (if EmployeeCreateRequest.CustomEmployeeID r = [] then None
           else Some [EmployeeCreateRequest.CustomEmployeeID r])"
    unfolding v reflectValue_lookup
    by (simp add: fields_EmployeeCreateRequest_def Tag_def tag_skip_def tag_key_def
        isEmptyValue_def)
  show "values ''title'' =
          (if EmployeeCreateRequest.Title r = [] then None
           else Some [EmployeeCreateRequest.Title r])"
    unfolding v reflectValue_lookup
    by (simp add: fields_EmployeeCreateRequest_def Tag_def tag_skip_def tag_key_def
        isEmptyValue_def)
  show "values ''hourly_rate'' =
          (if EmployeeCreateRequest.HourlyRate r = 0
              \<or> EmployeeCreateRequest.HourlyRate r = 0x8000000000000000 then None
           else Some [Sprint_float64 lib (EmployeeCreateRequest.HourlyRate r)])"
    unfolding v reflectValue_lookup
    by (simp add: fields_EmployeeCreateRequest_def Tag_def tag_skip_def tag_key_def
        isEmptyValue_def)
  show "values ''pin'' =
          (if EmployeeCreateRequest.PIN r = [] then None
           else Some [EmployeeCreateRequest.PIN r])"
    unfolding v reflectValue_lookup
    by (simp add: fields_EmployeeCreateRequest_def Tag_def tag_skip_def tag_key_def
        isEmptyValue_def)
  show "values ''custom_fields'' =
          (if EmployeeCreateRequest.CustomFields r = Map.empty then None
           else Some [Sprint_map lib (EmployeeCreateRequest.CustomFields r)])"
    unfolding v reflectValue_lookup
    by (simp add: fields_EmployeeCreateRequest_def Tag_def tag_skip_def tag_key_def
        isEmptyValue_def)
  show "dom values \<subseteq> {''name'', ''department_id'', ''department_name'',
           ''custom_employee_id'', ''title'', ''hourly_rate'', ''pin'', ''custom_fields''}"
  proof
    fix k assume "k \<in> dom values"
    then have "values k \<noteq> None" by auto
    then show "k \<in> {''name'', ''department_id'', ''department_name'',
           ''custom_employee_id'', ''title'', ''hourly_rate'', ''pin'', ''custom_fields''}"
      unfolding v reflectValue_lookup
      by (simp add: fields_EmployeeCreateRequest_def Tag_def tag_skip_def
          tag_key_def Let_def split: if_splits)
  qed
qed





lemma json_members_Cons:
  "json_members lib (sf # rest) =
     (if tag_skip (json_tag sf)
         \<or> (snd (tag_key (json_tag sf) (field_name sf)) \<and> json_isEmptyValue lib (field_val sf))
      then [] else [(fst (tag_key (json_tag sf) (field_name sf)), field_val sf)])
     @ json_members lib rest"
  by simp

lemma json_Marshal_EmployeeUpdate:
  "json_Marshal lib (EmployeeUpdate (Some r)) =
     JObject
      ((''name'', GStringPtr (EmployeeUpdateRequest.Name r))
       # (if EmployeeUpdateRequest.DepartmentID r = None then []
          else [(''department_id'', GStringPtr (EmployeeUpdateRequest.DepartmentID r))])
       @ (if EmployeeUpdateRequest.DepartmentName r = None then []
          else [(''department_name'', GStringPtr (EmployeeUpdateRequest.DepartmentName r))])
       @ (if EmployeeUpdateRequest.CustomEmployeeID r = None then []
          else [(''custom_employee_id'', GStringPtr (EmployeeUpdateRequest.CustomEmployeeID r))])
       @ (if EmployeeUpdateRequest.Title r = None then []
          else [(''title'', GStringPtr (EmployeeUpdateRequest.Title r))])
       @ (if EmployeeUpdateRequest.HourlyRate r = None then []
          else [(''hourly_rate'', GPtr (map_option GFloat64 (EmployeeUpdateRequest.HourlyRate r)))])
       @ (if EmployeeUpdateRequest.PIN r = None then []
          else [(''pin'', GStringPtr (EmployeeUpdateRequest.PIN r))])
       @ (if EmployeeUpdateRequest.CustomFields r = Map.empty then []
          else [(''custom_fields'', GMap (EmployeeUpdateRequest.CustomFields r))])
       @ (if EmployeeUpdateRequest.ConvertPrimaryDepartment r = None then []
          else [(''convert_primary_department'',
                 GPtr (map_option GBool (EmployeeUpdateRequest.ConvertPrimaryDepartment r)))]))"
  by (simp add: json_Marshal_def fields_EmployeeUpdateRequest_def Tag_def tag_skip_def
      tag_key_def json_isEmptyValue_def GStringPtr_def json_members_Cons
      del: json_members.simps(2) split del: if_split cong: if_cong)


lemma newHTTPRequest_form:
  assumes "newHTTPRequest lib method reqURL (Some b) = Inr req" and "formRequest b"
  shows "content_type req = Some [''application/x-www-form-urlencoded'']
         \<and> (\<exists>values. query_Values lib b = Inr values
                \<and> Body req = Some (Values_Encode lib values))"
  using assms
  by (auto simp: newHTTPRequest_def http_NewRequest_def content_type_def Header_Add_def
      split: sum.splits option.splits)

lemma newHTTPRequest_json:
  assumes "newHTTPRequest lib method reqURL (Some b) = Inr req" and "\<not> formRequest b"
  shows "content_type req = Some [''application/json'']
         \<and> (\<exists>buf. json_Encode lib (json_Marshal lib b) = Inr buf \<and> Body req = Some buf)"
  using assms
  by (auto simp: newHTTPRequest_def http_NewRequest_def content_type_def Header_Add_def
      split: sum.splits option.splits)


text \<open>
  C7. A request built with a body of a form request kind has the content type
  \<^verbatim>\<open>application/x-www-form-urlencoded\<close> and the form encoding of the values of the
  body as its payload; with any other body it has the content type
  \<^verbatim>\<open>application/json\<close> and the JSON encoding of the body as its payload. The keys are
  those of the tags: a \<^verbatim>\<open>DepartmentCreateRequest\<close> gives \<^verbatim>\<open>name\<close>; an
  \<^verbatim>\<open>EmployeeCreateRequest\<close> gives \<^verbatim>\<open>name\<close> always and each of its optional fields
  exactly when the field is not the zero value of its type; an
  \<^verbatim>\<open>EmployeeUpdateRequest\<close> gives the JSON member \<^verbatim>\<open>name\<close> always and a member for each
  optional field that is not a \<^verbatim>\<open>nil\<close> pointer or an empty map.
\<close>

theorem body_encoding:
  assumes "newHTTPRequest lib method reqURL (Some b) = Inr req"
  shows "(formRequest b \<longrightarrow>
            content_type req = Some [''application/x-www-form-urlencoded'']
            \<and> (\<exists>values. query_Values lib b = Inr values
                   \<and> Body req = Some (Values_Encode lib values)))
    \<and> (\<not> formRequest b \<longrightarrow>
            content_type req = Some [''application/json'']
            \<and> (\<exists>buf. json_Encode lib (json_Marshal lib b) = Inr buf \<and> Body req = Some buf))
    \<and> (\<forall>r. b = DepartmentCreate (Some r) \<longrightarrow>
            query_Values lib b = Inr [''name'' \<mapsto> [DepartmentCreateRequest.Name r]])
    \<and> (\<forall>r values. b = EmployeeCreate (Some r) \<and> query_Values lib b = Inr values \<longrightarrow>
            values ''name'' = Some [EmployeeCreateRequest.Name r]
            \<and> values ''department_id'' =
                 (if EmployeeCreateRequest.DepartmentID r = [] then None
                  else Some [EmployeeCreateRequest.DepartmentID r])
            \<and> values ''department_name'' =
                 (if EmployeeCreateRequest.DepartmentName r = [] then None
                  else Some [EmployeeCreateRequest.DepartmentName r])
            \<and> values ''custom_employee_id'' =
                 (if EmployeeCreateRequest.CustomEmployeeID r = [] then None
                  else Some [EmployeeCreateRequest.CustomEmployeeID r])
            \<and> values ''title'' =
                 (if EmployeeCreateRequest.Title r = [] then None
                  else Some [EmployeeCreateRequest.Title r])
            \<and> values ''hourly_rate'' =
                 (if EmployeeCreateRequest.HourlyRate r = 0
                     \<or> EmployeeCreateRequest.HourlyRate r = 0x8000000000000000 then None
                  else Some [Sprint_float64 lib (EmployeeCreateRequest.HourlyRate r)])
            \<and> values ''pin'' =
                 (if EmployeeCreateRequest.PIN r = [] then None
                  else Some [EmployeeCreateRequest.PIN r])
            \<and> values ''custom_fields'' =
                 (if EmployeeCreateRequest.CustomFields r = Map.empty then None
                  else Some [Sprint_map lib (EmployeeCreateRequest.CustomFields r)])
            \<and> dom values \<subseteq> {''name'', ''department_id'', ''department_name'',
                 ''custom_employee_id'', ''title'', ''hourly_rate'', ''pin'', ''custom_fields''})
    \<and> (\<forall>r. b = EmployeeUpdate (Some r) \<longrightarrow>
            json_Marshal lib b =
              JObject
               ((''name'', GStringPtr (EmployeeUpdateRequest.Name r))
                # (if EmployeeUpdateRequest.DepartmentID r = None then []
                   else [(''department_id'', GStringPtr (EmployeeUpdateRequest.DepartmentID r))])
                @ (if EmployeeUpdateRequest.DepartmentName r = None then []
                   else [(''department_name'',
                          GStringPtr (EmployeeUpdateRequest.DepartmentName r))])
                @ (if EmployeeUpdateRequest.CustomEmployeeID r = None then []
                   else [(''custom_employee_id'',
                          GStringPtr (EmployeeUpdateRequest.CustomEmployeeID r))])
                @ (if EmployeeUpdateRequest.Title r = None then []
                   else [(''title'', GStringPtr (EmployeeUpdateRequest.Title r))])
                @ (if EmployeeUpdateRequest.HourlyRate r = None then []
                   else [(''hourly_rate'',
                          GPtr (map_option GFloat64 (EmployeeUpdateRequest.HourlyRate r)))])
                @ (if EmployeeUpdateRequest.PIN r = None then []
                   else [(''pin'', GStringPtr (EmployeeUpdateRequest.PIN r))])
                @ (if EmployeeUpdateRequest.CustomFields r = Map.empty then []
                   else [(''custom_fields'', GMap (EmployeeUpdateRequest.CustomFields r))])
                @ (if EmployeeUpdateRequest.ConvertPrimaryDepartment r = None then []
                   else [(''convert_primary_department'',
                          GPtr (map_option GBool
                                  (EmployeeUpdateRequest.ConvertPrimaryDepartment r)))])))"
proof (intro conjI allI impI)
  assume "formRequest b"
  with assms show "content_type req = Some [''application/x-www-form-urlencoded'']"
    and "\<exists>values. query_Values lib b = Inr values \<and> Body req = Some (Values_Encode lib values)"
    using newHTTPRequest_form by blast+
next
  assume "\<not> formRequest b"
  with assms show "content_type req = Some [''application/json'']"
    and "\<exists>buf. json_Encode lib (json_Marshal lib b) = Inr buf \<and> Body req = Some buf"
    using newHTTPRequest_json by blast+
next
  fix r assume "b = DepartmentCreate (Some r)"
  then show "query_Values lib b = Inr [''name'' \<mapsto> [DepartmentCreateRequest.Name r]]"
    by (simp add: query_Values_DepartmentCreate)
next
  fix r assume "b = EmployeeUpdate (Some r)"
  then show "json_Marshal lib b =
              JObject
               ((''name'', GStringPtr (EmployeeUpdateRequest.Name r))
                # (if EmployeeUpdateRequest.DepartmentID r = None then []
                   else [(''department_id'', GStringPtr (EmployeeUpdateRequest.DepartmentID r))])
                @ (if EmployeeUpdateRequest.DepartmentName r = None then []
                   else [(''department_name'',
                          GStringPtr (EmployeeUpdateRequest.DepartmentName r))])
                @ (if EmployeeUpdateRequest.CustomEmployeeID r = None then []
                   else [(''custom_employee_id'',
                          GStringPtr (EmployeeUpdateRequest.CustomEmployeeID r))])
                @ (if EmployeeUpdateRequest.Title r = None then []
                   else [(''title'', GStringPtr (EmployeeUpdateRequest.Title r))])
                @ (if EmployeeUpdateRequest.HourlyRate r = None then []
                   else [(''hourly_rate'',
                          GPtr (map_option GFloat64 (EmployeeUpdateRequest.HourlyRate r)))])
                @ (if EmployeeUpdateRequest.PIN r = None then []
                   else [(''pin'', GStringPtr (EmployeeUpdateRequest.PIN r))])
                @ (if EmployeeUpdateRequest.CustomFields r = Map.empty then []
                   else [(''custom_fields'', GMap (EmployeeUpdateRequest.CustomFields r))])
                @ (if EmployeeUpdateRequest.ConvertPrimaryDepartment r = None then []
                   else [(''convert_primary_department'',
                          GPtr (map_option GBool
                                  (EmployeeUpdateRequest.ConvertPrimaryDepartment r)))]))"
    by (simp only: json_Marshal_EmployeeUpdate)
next
  fix r vs
  assume "b = EmployeeCreate (Some r) \<and> query_Values lib b = Inr vs"
  then have "b = EmployeeCreate (Some r)" and "query_Values lib b = Inr vs" by blast+
  then have q: "query_Values lib (EmployeeCreate (Some r)) = Inr vs" by blast
  note query_Values_EmployeeCreate [OF q]
  then show "vs ''name'' = Some [EmployeeCreateRequest.Name r]"
    and "vs ''department_id'' =
                 (if EmployeeCreateRequest.DepartmentID r = [] then None
                  else Some [EmployeeCreateRequest.DepartmentID r])"
    and "vs ''department_name'' =
                 (if EmployeeCreateRequest.DepartmentName r = [] then None
                  else Some [EmployeeCreateRequest.DepartmentName r])"
    and "vs ''custom_employee_id'' =
                 (if EmployeeCreateRequest.CustomEmployeeID r = [] then None
                  else Some [EmployeeCreateRequest.CustomEmployeeID r])"
    and "vs ''title'' =
                 (if EmployeeCreateRequest.Title r = [] then None
                  else Some [EmployeeCreateRequest.Title r])"
    and "vs ''hourly_rate'' =
                 (if EmployeeCreateRequest.HourlyRate r = 0
                     \<or> EmployeeCreateRequest.HourlyRate r = 0x8000000000000000 then None
                  else Some [Sprint_float64 lib (EmployeeCreateRequest.HourlyRate r)])"
    and "vs ''pin'' =
                 (if EmployeeCreateRequest.PIN r = [] then None
                  else Some [EmployeeCreateRequest.PIN r])"
    and "vs ''custom_fields'' =
                 (if EmployeeCreateRequest.CustomFields r = Map.empty then None
                  else Some [Sprint_map lib (EmployeeCreateRequest.CustomFields r)])"
    and "dom vs \<subseteq> {''name'', ''department_id'', ''department_name'',
                 ''custom_employee_id'', ''title'', ''hourly_rate'', ''pin'', ''custom_fields''}"
    by - assumption+
qed


theorem body_encoding_witness:
  "newHTTPRequest ex_lib ''POST'' ''https://api.mytimestation.com/v1.2/departments''
       (Some (DepartmentCreate (Some ex_department)))
     = Inr \<lparr>Method = ''POST'', URL = ''https://api.mytimestation.com/v1.2/departments'',
            Header = [''Content-Type'' \<mapsto> [''application/x-www-form-urlencoded'']],
            Body = Some ''name=Engineering''\<rparr>
   \<and> query_Values ex_lib (DepartmentCreate (Some ex_department))
     = Inr [''name'' \<mapsto> [''Engineering'']]
   \<and> map (reflectValue ex_lib Map.empty (fields_EmployeeCreateRequest ex_employee))
         [''name'', ''department_id'', ''department_name'', ''custom_employee_id'', ''title'',
          ''hourly_rate'', ''pin'', ''custom_fields'']
     = [Some [''Bob Ross''], Some [''dep_1''], None, None, Some [''Senior Artist''],
        None, Some [''1234''], None]
   \<and> newHTTPRequest ex_lib ''PUT'' ''https://api.mytimestation.com/v1.2/employees/emp_1''
       (Some (EmployeeUpdate (Some ex_update)))
     = Inr \<lparr>Method = ''PUT'', URL = ''https://api.mytimestation.com/v1.2/employees/emp_1'',
            Header = [''Content-Type'' \<mapsto> [''application/json'']],
            Body = Some ''{name;title;}''\<rparr>
   \<and> json_Marshal ex_lib (EmployeeUpdate (Some ex_update))
     = JObject [(''name'', GPtr (Some (GString ''Bob''))), (''title'', GPtr (Some (GString [])))]"
proof -
  let ?r1 = "\<lparr>Method = ''POST'', URL = ''https://api.mytimestation.com/v1.2/departments'',
            Header = [''Content-Type'' \<mapsto> [''application/x-www-form-urlencoded'']],
            Body = Some ''name=Engineering''\<rparr>"
  let ?r2 = "\<lparr>Method = ''PUT'', URL = ''https://api.mytimestation.com/v1.2/employees/emp_1'',
            Header = [''Content-Type'' \<mapsto> [''application/json'']],
            Body = Some ''{name;title;}''\<rparr>"
  have ve: "Values_Encode ex_lib vs
      = (case vs ''name'' of Some [n] \<Rightarrow> ''name='' @ n | _ \<Rightarrow> [])" for vs
    by (simp add: ex_lib_def)
  have je: "json_Encode ex_lib (JObject ms)
      = Inr (''{'' @ concat (map (\<lambda>m. fst m @ '';'') ms) @ ''}'')" for ms
    by (simp add: ex_lib_def)
  have ne: "NewRequest_error ex_lib m u = None" for m u
    by (simp add: ex_lib_def)
  have q1: "query_Values ex_lib (DepartmentCreate (Some ex_department))
     = Inr [''name'' \<mapsto> [''Engineering'']]"
    by (simp add: query_Values_DepartmentCreate ex_department_def)
  have h1: "newHTTPRequest ex_lib ''POST'' ''https://api.mytimestation.com/v1.2/departments''
       (Some (DepartmentCreate (Some ex_department))) = Inr ?r1"
    by (simp add: newHTTPRequest_def q1 http_NewRequest_def ve ne Header_Add_def)
  have j2: "json_Marshal ex_lib (EmployeeUpdate (Some ex_update))
     = JObject [(''name'', GPtr (Some (GString ''Bob''))), (''title'', GPtr (Some (GString [])))]"
    by (simp add: json_Marshal_EmployeeUpdate ex_update_def GStringPtr_def)
  have h2: "newHTTPRequest ex_lib ''PUT'' ''https://api.mytimestation.com/v1.2/employees/emp_1''
       (Some (EmployeeUpdate (Some ex_update))) = Inr ?r2"
    by (simp add: newHTTPRequest_def j2 http_NewRequest_def je ne Header_Add_def)
  have q3: "query_Values ex_lib (EmployeeCreate (Some ex_employee))
     = Inr (reflectValue ex_lib Map.empty (fields_EmployeeCreateRequest ex_employee))"
    by (simp add: query_Values_def)
  have e: "EmployeeCreateRequest.Name ex_employee = ''Bob Ross''"
    "EmployeeCreateRequest.DepartmentID ex_employee = ''dep_1''"
    "EmployeeCreateRequest.DepartmentName ex_employee = []"
    "EmployeeCreateRequest.CustomEmployeeID ex_employee = []"
    "EmployeeCreateRequest.Title ex_employee = ''Senior Artist''"
    "EmployeeCreateRequest.HourlyRate ex_employee = 0"
    "EmployeeCreateRequest.PIN ex_employee = ''1234''"
    "EmployeeCreateRequest.CustomFields ex_employee = Map.empty"
    by (simp_all add: ex_employee_def)
  from body_encoding [OF h1] have c1: "content_type ?r1 = Some [''application/x-www-form-urlencoded'']"
    by simp
  from body_encoding [OF h2] have c2: "content_type ?r2 = Some [''application/json'']"
    by simp
  have n3: "reflectValue ex_lib Map.empty (fields_EmployeeCreateRequest ex_employee) ''name''
      = Some [''Bob Ross'']"
    unfolding reflectValue_lookup
    by (simp add: fields_EmployeeCreateRequest_def Tag_def tag_skip_def tag_key_def
        isEmptyValue_def e)
  have h3: "newHTTPRequest ex_lib ''POST'' ''https://api.mytimestation.com/v1.2/employees''
       (Some (EmployeeCreate (Some ex_employee)))
     = Inr \<lparr>Method = ''POST'', URL = ''https://api.mytimestation.com/v1.2/employees'',
            Header = [''Content-Type'' \<mapsto> [''application/x-www-form-urlencoded'']],
            Body = Some ''name=Bob Ross''\<rparr>"
    by (simp add: newHTTPRequest_def q3 http_NewRequest_def ve ne n3 Header_Add_def)
  from body_encoding [OF h3, THEN conjunct2, THEN conjunct2, THEN conjunct2, THEN conjunct1,
      THEN spec [where x = ex_employee],
      THEN spec [where x = "reflectValue ex_lib Map.empty
                              (fields_EmployeeCreateRequest ex_employee)"]] q3
  have c3: "map (reflectValue ex_lib Map.empty (fields_EmployeeCreateRequest ex_employee))
         [''name'', ''department_id'', ''department_name'', ''custom_employee_id'', ''title'',
          ''hourly_rate'', ''pin'', ''custom_fields'']
     = [Some [''Bob Ross''], Some [''dep_1''], None, None, Some [''Senior Artist''],
        None, Some [''1234''], None]"
    by (simp add: e)
  from h1 q1 c3 h2 j2 c1 c2 show ?thesis by blast
qed

end
